theory Spec2Isabelle
  imports Main
begin

section \<open>Values shared by all stages\<close>

text \<open>
  A \<open>Path\<close> is modelled by its string; \<open>output_dir / name\<close> appends a separator and the
  name. Python integers are \<open>int\<close>.
\<close>

type_synonym path = string

definition joinpath :: "path \<Rightarrow> string \<Rightarrow> path" where
  "joinpath d name = d @ ''/'' @ name"

datatype error =
    KeyError string
  | CalledProcessError int "string list" string string
  | InvalidStateError
  | ExceptionGroup "error list"
  | CollaboratorError string

text \<open>
  \<open>CalledProcessError returncode args stdout stderr\<close> is the exception of line 69 and of
  \<open>subprocess.run(check=True)\<close>; \<open>ExceptionGroup\<close> is what a \<open>TaskGroup\<close> raises;
  \<open>CollaboratorError\<close> stands for any exception raised inside an external collaborator
  (deck parser, speech service, PDF library, process launch).
\<close>

section \<open>The deck\<close>

text \<open>
  The deck parser's objects, as far as \<open>get_note_from_slide\<close> reads them: a slide may
  have a notes slide, a notes slide may have a notes text frame, a text frame has a text.
\<close>

datatype text_frame = TextFrame (text_of: string)

datatype notes_slide = NotesSlide (notes_text_frame: "text_frame option")

datatype slide = Slide (notes_slide: "notes_slide option")

section \<open>Effects: traces of collaborator calls and raised errors\<close>

text \<open>
  The external collaborators are not part of the program: the deck parser, the speech
  service, the processes started by \<open>subprocess.run\<close>, the PDF library and its executor
  jobs. Their behaviour is a parameter, the \<open>world\<close>. Every stage returns the trace of
  the calls it made, in the order it made them, together with its result or the
  exception it raised.
\<close>

datatype page = Page nat

datatype pixmap = Pixmap page int

datatype job = GetPixmapJob page int | SaveJob pixmap path

datatype event =
    TtsSave string string path
  | SubprocessRun "string list" string
  | PdfOpen path
  | ExecutorSubmit job
  | ExecutorDone job
  | WriteFile path string
  | Mkdir path

type_synonym 'a res = "event list \<times> (error + 'a)"

definition ret :: "'a \<Rightarrow> 'a res" where
  "ret x = ([], Inr x)"

definition raise :: "error \<Rightarrow> 'a res" where
  "raise e = ([], Inl e)"

definition emit :: "event \<Rightarrow> unit res" where
  "emit ev = ([ev], Inr ())"

definition lift :: "error + 'a \<Rightarrow> 'a res" where
  "lift r = ([], r)"

definition bind :: "'a res \<Rightarrow> ('a \<Rightarrow> 'b res) \<Rightarrow> 'b res" where
  "bind m f =
     (case m of
        (t, Inl e) \<Rightarrow> (t, Inl e)
      | (t, Inr x) \<Rightarrow> (case f x of (t', r) \<Rightarrow> (t @ t', r)))"

record completed_process =
  returncode :: int
  stdout :: string
  stderr :: string

text \<open>
  \<open>tts_completion\<close> and \<open>raster_completion\<close> are the orders in which the event loop
  happens to complete the tasks of the two task groups; \<open>tts_cancel_lag\<close> and
  \<open>raster_cancel_lag\<close> say how many further tasks still complete after the first failure
  of a group, before the cancellation reaches them. \<open>save_runs_early\<close> says whether the
  executor's worker thread has already run a submitted save job when the submitting
  coroutine goes on; for a job that has not, \<open>save_runs_late\<close> gives the number of further
  events of the run after which the worker thread has run it, or \<open>None\<close> when it has
  not run before the run ends. The three temporary directories are the ones
  \<open>tempfile.TemporaryDirectory()\<close> hands out in \<open>main_process\<close>,
  \<open>convert_ppt_to_image\<close> and \<open>concat_videos\<close>.
\<close>

record world =
  presentation :: "path \<Rightarrow> error + slide list"
  tts_save :: "string \<Rightarrow> string \<Rightarrow> path \<Rightarrow> error option"
  subprocess_run :: "string list \<Rightarrow> string \<Rightarrow> error + completed_process"
  pymupdf_open :: "path \<Rightarrow> error + page list"
  get_pixmap :: "page \<Rightarrow> int \<Rightarrow> error + pixmap"
  pix_save :: "pixmap \<Rightarrow> path \<Rightarrow> error option"
  save_runs_early :: "pixmap \<Rightarrow> path \<Rightarrow> bool"
  save_runs_late :: "pixmap \<Rightarrow> path \<Rightarrow> nat option"
  tts_completion :: "nat list"
  raster_completion :: "nat list"
  tts_cancel_lag :: nat
  raster_cancel_lag :: nat
  stem :: "path \<Rightarrow> string"
  resolve :: "path \<Rightarrow> path"
  main_tmp_dir :: path
  pdf_tmp_dir :: path
  concat_tmp_dir :: path

text \<open>\<open>subprocess.run(args, check=True, capture_output=True, encoding=encoding)\<close>.\<close>

definition subprocess_run_checked ::
  "world \<Rightarrow> string list \<Rightarrow> string \<Rightarrow> completed_process res" where
  "subprocess_run_checked w args encoding =
     bind (emit (SubprocessRun args encoding)) (\<lambda>_.
       case subprocess_run w args encoding of
         Inl e \<Rightarrow> raise e
       | Inr output \<Rightarrow>
           if returncode output \<noteq> 0
           then raise (CalledProcessError (returncode output) args (stdout output) (stderr output))
           else ret output)"

section \<open>File-name templates\<close>

text \<open>
  A \<open>string.Template\<close>, already parsed: literal text and \<open>${name}\<close> placeholders.
  \<open>substitute(index=i)\<close> replaces \<open>${index}\<close> by \<open>str(i)\<close> and raises \<open>KeyError\<close> at
  any other placeholder.
\<close>

datatype segment = Literal string | Named string

type_synonym template = "segment list"

definition digit_char :: "nat \<Rightarrow> char" where
  "digit_char d = ''0123456789'' ! (d mod 10)"

function str_nat :: "nat \<Rightarrow> string" where
  "str_nat n = (if n < 10 then [digit_char n] else str_nat (n div 10) @ [digit_char (n mod 10)])"
  by pat_completeness auto
termination
  by (relation "measure (\<lambda>n. n)") auto

declare str_nat.simps [simp del]

definition str_int :: "int \<Rightarrow> string" where
  "str_int i = (if i < 0 then ''-'' @ str_nat (nat (- i)) else str_nat (nat i))"

fun substitute_segment :: "int \<Rightarrow> segment \<Rightarrow> error + string" where
  "substitute_segment index (Literal s) = Inr s"
| "substitute_segment index (Named k) =
     (if k = ''index'' then Inr (str_int index) else Inl (KeyError k))"

fun substitute :: "template \<Rightarrow> int \<Rightarrow> error + string" where
  "substitute [] index = Inr []"
| "substitute (seg # rest) index =
     (case substitute_segment index seg of
        Inl e \<Rightarrow> Inl e
      | Inr s \<Rightarrow>
          (case substitute rest index of
             Inl e \<Rightarrow> Inl e
           | Inr t \<Rightarrow> Inr (s @ t)))"

section \<open>Reading the notes\<close>

definition has_notes_slide :: "slide \<Rightarrow> bool" where
  "has_notes_slide s = (notes_slide s \<noteq> None)"

definition get_note_from_slide :: "slide \<Rightarrow> string option" where
  "get_note_from_slide s =
     (if \<not> has_notes_slide s then None
      else case notes_slide s of
        None \<Rightarrow> None
      | Some ns \<Rightarrow>
          (case notes_text_frame ns of
             None \<Rightarrow> None
           | Some tf \<Rightarrow>
               (let notes_text = text_of tf
                in if length notes_text = 0 then None else Some notes_text)))"

definition get_notes_from_ppt_file :: "world \<Rightarrow> path \<Rightarrow> string option list res" where
  "get_notes_from_ppt_file w ppt_file_path =
     bind (lift (presentation w ppt_file_path)) (\<lambda>slides.
       ret (map get_note_from_slide slides))"

section \<open>Slide selection\<close>

text \<open>\<open>enumerate(xs, start=n)\<close>.\<close>

fun enumerate_py :: "int \<Rightarrow> 'a list \<Rightarrow> (int \<times> 'a) list" where
  "enumerate_py n [] = []"
| "enumerate_py n (x # xs) = (n, x) # enumerate_py (n + 1) xs"

fun has_note :: "int \<times> string option \<Rightarrow> bool" where
  "has_note (index, note) = (case note of None \<Rightarrow> False | Some s \<Rightarrow> length s > 0)"

text \<open>
  \<open>has_note\<close> is a \<open>TypeGuard\<close>: the filtered tuples are read as \<open>tuple[int, str]\<close>.
  \<open>narrow\<close> is that cast; it is defined exactly on the tuples that carry a note.
\<close>

fun narrow :: "int \<times> string option \<Rightarrow> (int \<times> string) option" where
  "narrow (index, None) = None"
| "narrow (index, Some s) = Some (index, s)"

definition available_pages_and_notes :: "string option list \<Rightarrow> (int \<times> string) list" where
  "available_pages_and_notes notes =
     List.map_filter narrow (filter has_note (enumerate_py 1 notes))"

definition available_pages :: "string option list \<Rightarrow> int list" where
  "available_pages notes = map fst (available_pages_and_notes notes)"

definition available_notes :: "string option list \<Rightarrow> string list" where
  "available_notes notes = map snd (available_pages_and_notes notes)"

section \<open>Task groups\<close>

text \<open>
  \<open>async with TaskGroup() as tg\<close>: the body creates the tasks without awaiting, so every
  task exists before any of them runs. When the body is left, each task runs, in the order
  of creation, up to its first \<open>await\<close>; after that the event loop resumes the tasks in
  the order in which the things they await complete. A task is therefore the calls it
  makes before its first \<open>await\<close> and what it does once resumed.

  A completing task stores its result in its own task object. When a task raises, the
  group cancels the tasks that are still waiting; tasks resumed in the same turn of the
  event loop still complete (\<open>lag\<close> of them), and the group raises an \<open>ExceptionGroup\<close>
  of all the errors raised, in the order in which they were raised.

  A completion order is given by any list of task numbers: numbers out of range and
  repetitions are skipped, and tasks the list does not mention complete last, in the
  order of their creation. Every permutation of the tasks is its own completion order.
\<close>

record 'a task =
  before_await :: "event list"
  after_await :: "'a res"

text \<open>
  \<open>tg.create_task(coro)\<close> for a coroutine that runs \<open>first\<close>, awaits, and goes on with
  \<open>rest\<close>.
\<close>

definition create_task :: "'x res \<Rightarrow> ('x \<Rightarrow> 'a res) \<Rightarrow> 'a task" where
  "create_task first rest =
     \<lparr> before_await = fst first,
       after_await = (case snd first of Inl e \<Rightarrow> raise e | Inr x \<Rightarrow> rest x) \<rparr>"

definition completion_order :: "nat \<Rightarrow> nat list \<Rightarrow> nat list" where
  "completion_order n sched =
     remdups (filter (\<lambda>i. i < n) sched) @ filter (\<lambda>i. i \<notin> set sched) [0..<n]"

text \<open>The tasks that still complete after the first failure, and the errors they raise.\<close>

fun stragglers :: "'a task list \<Rightarrow> nat list \<Rightarrow> event list \<times> error list" where
  "stragglers tasks [] = ([], [])"
| "stragglers tasks (i # order) =
     (case after_await (tasks ! i) of
        (t, r) \<Rightarrow>
          (case stragglers tasks order of
             (t', es) \<Rightarrow> (t @ t', (case r of Inl e \<Rightarrow> e # es | Inr x \<Rightarrow> es))))"

fun run_tasks ::
  "'a task list \<Rightarrow> nat \<Rightarrow> nat list \<Rightarrow> 'a option list \<Rightarrow> 'a option list res" where
  "run_tasks tasks lag [] done = ret done"
| "run_tasks tasks lag (i # order) done =
     (case after_await (tasks ! i) of
        (t, Inl e) \<Rightarrow>
          (case stragglers tasks (take lag order) of
             (t', es) \<Rightarrow> (t @ t', Inl (ExceptionGroup (e # es))))
      | (t, Inr r) \<Rightarrow>
          bind (t, Inr ()) (\<lambda>_. run_tasks tasks lag order (done[i := Some r])))"

definition task_group :: "'a task list \<Rightarrow> nat list \<Rightarrow> nat \<Rightarrow> 'a option list res" where
  "task_group tasks sched lag =
     bind (concat (map before_await tasks), Inr ()) (\<lambda>_.
       run_tasks tasks lag (completion_order (length tasks) sched)
         (replicate (length tasks) None))"

text \<open>\<open>list(map(lambda t: t.result(), tasks))\<close>: a task that is not done raises.\<close>

fun task_results :: "'a option list \<Rightarrow> error + 'a list" where
  "task_results [] = Inr []"
| "task_results (None # ts) = Inl InvalidStateError"
| "task_results (Some r # ts) =
     (case task_results ts of Inl e \<Rightarrow> Inl e | Inr rs \<Rightarrow> Inr (r # rs))"

section \<open>Audio synthesis\<close>

definition convert_note_to_audio :: "world \<Rightarrow> string \<Rightarrow> path \<Rightarrow> string \<Rightarrow> path res" where
  "convert_note_to_audio w note output_file_path voice =
     bind (emit (TtsSave note voice output_file_path)) (\<lambda>_.
       case tts_save w note voice output_file_path of
         Some e \<Rightarrow> raise e
       | None \<Rightarrow> ret output_file_path)"

text \<open>
  \<open>tg.create_task(convert_note_to_audio(note, output_file_path, voice))\<close>. The one call
  a note's task records, the completed \<open>communicate.save\<close>, comes after its \<open>await\<close>.
\<close>

definition convert_note_to_audio_task :: "world \<Rightarrow> string \<Rightarrow> path \<Rightarrow> string \<Rightarrow> path task" where
  "convert_note_to_audio_task w note output_file_path voice =
     create_task (ret ()) (\<lambda>_. convert_note_to_audio w note output_file_path voice)"

text \<open>The \<open>for\<close> loop of \<open>convert_notes_to_audio\<close>: it creates one task per note.\<close>

fun audio_tasks ::
  "world \<Rightarrow> (int \<times> string) list \<Rightarrow> path \<Rightarrow> template \<Rightarrow> string \<Rightarrow> error + path task list" where
  "audio_tasks w [] output_dir output_filename voice = Inr []"
| "audio_tasks w ((index, note) # rest) output_dir output_filename voice =
     (case substitute output_filename index of
        Inl e \<Rightarrow> Inl e
      | Inr name \<Rightarrow>
          (let output_file_path = joinpath output_dir name
           in case audio_tasks w rest output_dir output_filename voice of
                Inl e \<Rightarrow> Inl e
              | Inr tasks \<Rightarrow>
                  Inr (convert_note_to_audio_task w note output_file_path voice # tasks)))"

definition convert_notes_to_audio ::
  "world \<Rightarrow> string list \<Rightarrow> path \<Rightarrow> template \<Rightarrow> string \<Rightarrow> path list res" where
  "convert_notes_to_audio w notes output_dir output_filename voice =
     (case audio_tasks w (enumerate_py 1 notes) output_dir output_filename voice of
        Inl e \<Rightarrow> raise (ExceptionGroup [e])
      | Inr tasks \<Rightarrow>
          bind (task_group tasks (tts_completion w) (tts_cancel_lag w)) (\<lambda>done.
            lift (task_results done)))"

section \<open>Image rendering\<close>

text \<open>
  \<open>loop.run_in_executor\<close> submits a job and returns a future holding the job's outcome;
  \<open>await\<close> waits for the job and yields its result or raises its exception. A job whose
  future is not awaited runs whenever the worker thread gets to it: before the submitting
  coroutine goes on (\<open>executor_progress\<close>), at some later point of the run
  (\<open>late_saves\<close>), or not before the run ends. Its outcome stays in the future.
\<close>

datatype 'a future = Future job "error + 'a"

definition run_in_executor :: "job \<Rightarrow> error + 'a \<Rightarrow> 'a future res" where
  "run_in_executor j outcome = bind (emit (ExecutorSubmit j)) (\<lambda>_. ret (Future j outcome))"

fun await :: "'a future \<Rightarrow> 'a res" where
  "await (Future j outcome) = bind (emit (ExecutorDone j)) (\<lambda>_. lift outcome)"

definition executor_progress :: "world \<Rightarrow> pixmap \<Rightarrow> path \<Rightarrow> unit res" where
  "executor_progress w pix output_file_path =
     (if save_runs_early w pix output_file_path
      then emit (ExecutorDone (SaveJob pix output_file_path))
      else ret ())"

definition save_outcome :: "world \<Rightarrow> pixmap \<Rightarrow> path \<Rightarrow> error + unit" where
  "save_outcome w pix output_file_path =
     (case pix_save w pix output_file_path of None \<Rightarrow> Inr () | Some e \<Rightarrow> Inl e)"

text \<open>\<open>convert_page_to_image\<close> from its \<open>await\<close> on: lines 44 to 48.\<close>

definition page_after_await :: "world \<Rightarrow> pixmap future \<Rightarrow> path \<Rightarrow> path res" where
  "page_after_await w fut output_file_path =
     bind (await fut) (\<lambda>pix.
     bind (run_in_executor (SaveJob pix output_file_path) (save_outcome w pix output_file_path))
       (\<lambda>dropped.
     bind (executor_progress w pix output_file_path) (\<lambda>_.
     ret output_file_path)))"

definition convert_page_to_image :: "world \<Rightarrow> page \<Rightarrow> path \<Rightarrow> int \<Rightarrow> path res" where
  "convert_page_to_image w page output_file_path dpi =
     bind (run_in_executor (GetPixmapJob page dpi) (get_pixmap w page dpi)) (\<lambda>fut.
     page_after_await w fut output_file_path)"

text \<open>
  \<open>tg.create_task(convert_page_to_image(page, output_file_path, dpi))\<close>: the task
  submits the pixmap job, then awaits it.
\<close>

definition convert_page_to_image_task :: "world \<Rightarrow> page \<Rightarrow> path \<Rightarrow> int \<Rightarrow> path task" where
  "convert_page_to_image_task w page output_file_path dpi =
     create_task (run_in_executor (GetPixmapJob page dpi) (get_pixmap w page dpi))
       (\<lambda>fut. page_after_await w fut output_file_path)"

text \<open>The guard of line 78: \<open>(pages is not None) and (index not in pages)\<close>.\<close>

definition skip_page :: "int list option \<Rightarrow> int \<Rightarrow> bool" where
  "skip_page pages index = (case pages of None \<Rightarrow> False | Some ps \<Rightarrow> index \<notin> set ps)"

text \<open>The \<open>for\<close> loop of \<open>convert_ppt_to_image\<close> over \<open>enumerate(iter(pdf), start=1)\<close>.\<close>

fun image_tasks ::
  "world \<Rightarrow> (int \<times> page) list \<Rightarrow> int list option \<Rightarrow> path \<Rightarrow> template \<Rightarrow> int
     \<Rightarrow> error + path task list" where
  "image_tasks w [] pages output_dir output_filename dpi = Inr []"
| "image_tasks w ((index, page) # rest) pages output_dir output_filename dpi =
     (if skip_page pages index
      then image_tasks w rest pages output_dir output_filename dpi
      else case substitute output_filename index of
        Inl e \<Rightarrow> Inl e
      | Inr name \<Rightarrow>
          (let output_file_path = joinpath output_dir name
           in case image_tasks w rest pages output_dir output_filename dpi of
                Inl e \<Rightarrow> Inl e
              | Inr tasks \<Rightarrow>
                  Inr (convert_page_to_image_task w page output_file_path dpi # tasks)))"

definition soffice_args :: "path \<Rightarrow> path \<Rightarrow> path \<Rightarrow> string list" where
  "soffice_args soffice_file_path tmp_dir_path ppt_file_path =
     [soffice_file_path, ''--headless'', ''--invisible'', ''--convert-to'', ''pdf'',
      ''--outdir'', tmp_dir_path, ppt_file_path]"

definition convert_ppt_to_image ::
  "world \<Rightarrow> path \<Rightarrow> path \<Rightarrow> int \<Rightarrow> template \<Rightarrow> path \<Rightarrow> string \<Rightarrow> int list option
     \<Rightarrow> path list res" where
  "convert_ppt_to_image w ppt_file_path output_dir dpi output_filename soffice_file_path
       encoding pages =
     (let tmp_dir_path = pdf_tmp_dir w;
          args = soffice_args soffice_file_path tmp_dir_path ppt_file_path
      in bind (subprocess_run_checked w args encoding) (\<lambda>output.
         if length (stderr output) > 0
         then raise (CalledProcessError (returncode output) args (stdout output) (stderr output))
         else
           (let pdf_file_path = joinpath tmp_dir_path (stem w ppt_file_path @ ''.pdf'')
            in bind (emit (PdfOpen pdf_file_path)) (\<lambda>_.
               bind (lift (pymupdf_open w pdf_file_path)) (\<lambda>pdf.
                 case image_tasks w (enumerate_py 1 pdf) pages output_dir output_filename dpi of
                   Inl e \<Rightarrow> raise (ExceptionGroup [e])
                 | Inr tasks \<Rightarrow>
                     bind (task_group tasks (raster_completion w) (raster_cancel_lag w))
                       (\<lambda>done. lift (task_results done)))))))"

section \<open>Muxing and concatenation\<close>

definition ffmpeg_mux_args :: "path \<Rightarrow> path \<Rightarrow> path \<Rightarrow> path \<Rightarrow> string list" where
  "ffmpeg_mux_args ffmpeg_file_path image_file_path audio_file_path output_file_path =
     [ffmpeg_file_path, ''-loop'', ''1'', ''-i'', image_file_path, ''-i'', audio_file_path,
      ''-c:v'', ''libx264'', ''-c:a'', ''copy'', ''-shortest'', ''-y'', output_file_path]"

definition convert_video :: "world \<Rightarrow> path \<Rightarrow> path \<Rightarrow> path \<Rightarrow> path \<Rightarrow> string \<Rightarrow> path res" where
  "convert_video w image_file_path audio_file_path output_file_path ffmpeg_file_path encoding =
     bind (subprocess_run_checked w
             (ffmpeg_mux_args ffmpeg_file_path image_file_path audio_file_path output_file_path)
             encoding) (\<lambda>output.
       ret output_file_path)"

text \<open>\<open>zip(count(n), xs, ys)\<close> stops at the end of the shorter list.\<close>

fun zip_count :: "int \<Rightarrow> 'a list \<Rightarrow> 'b list \<Rightarrow> (int \<times> 'a \<times> 'b) list" where
  "zip_count n (x # xs) (y # ys) = (n, x, y) # zip_count (n + 1) xs ys"
| "zip_count n xs ys = []"

text \<open>The \<open>for\<close> loop of \<open>convert_videos\<close>; \<open>result.append(p)\<close> keeps the order.\<close>

fun convert_videos_loop ::
  "world \<Rightarrow> (int \<times> path \<times> path) list \<Rightarrow> path \<Rightarrow> template \<Rightarrow> path \<Rightarrow> string
     \<Rightarrow> path list res" where
  "convert_videos_loop w [] output_dir output_filename ffmpeg_file_path encoding = ret []"
| "convert_videos_loop w ((index, image_file_path, audio_file_path) # rest) output_dir
       output_filename ffmpeg_file_path encoding =
     (case substitute output_filename index of
        Inl e \<Rightarrow> raise e
      | Inr name \<Rightarrow>
          (let output_file_path = joinpath output_dir name
           in bind (convert_video w image_file_path audio_file_path output_file_path
                      ffmpeg_file_path encoding) (\<lambda>p.
              bind (convert_videos_loop w rest output_dir output_filename ffmpeg_file_path
                      encoding) (\<lambda>result.
              ret (p # result)))))"

definition convert_videos ::
  "world \<Rightarrow> path list \<Rightarrow> path list \<Rightarrow> path \<Rightarrow> template \<Rightarrow> path \<Rightarrow> string \<Rightarrow> path list res" where
  "convert_videos w image_file_paths audio_file_paths output_dir output_filename
       ffmpeg_file_path encoding =
     convert_videos_loop w (zip_count 1 image_file_paths audio_file_paths) output_dir
       output_filename ffmpeg_file_path encoding"

definition manifest :: "world \<Rightarrow> path list \<Rightarrow> string" where
  "manifest w video_file_paths =
     concat (map (\<lambda>p. ''file '' @ [CHR 0x27] @ resolve w p @ [CHR 0x27, CHR 0x0A])
       video_file_paths)"

definition ffmpeg_concat_args :: "path \<Rightarrow> path \<Rightarrow> path \<Rightarrow> string list" where
  "ffmpeg_concat_args ffmpeg_file_path concat_file_path output_file_path =
     [ffmpeg_file_path, ''-f'', ''concat'', ''-safe'', ''0'', ''-i'', concat_file_path,
      ''-c:v'', ''copy'', ''-c:a'', ''aac'', ''-ar'', ''48000'', ''-y'', output_file_path]"

definition concat_videos :: "world \<Rightarrow> path list \<Rightarrow> path \<Rightarrow> path \<Rightarrow> string \<Rightarrow> path res" where
  "concat_videos w video_file_paths output_file_path ffmpeg_file_path encoding =
     (let tmp_dir_path = concat_tmp_dir w;
          concat_file_path = joinpath tmp_dir_path ''concat.txt''
      in bind (emit (WriteFile concat_file_path (manifest w video_file_paths))) (\<lambda>_.
         bind (subprocess_run_checked w
                 (ffmpeg_concat_args ffmpeg_file_path concat_file_path output_file_path)
                 encoding) (\<lambda>output.
         ret output_file_path)))"

section \<open>The pipeline\<close>

definition note_template :: template where
  "note_template = [Literal ''note-'', Named ''index'', Literal ''.aac'']"

definition page_template :: template where
  "page_template = [Literal ''page-'', Named ''index'', Literal ''.png'']"

definition video_template :: template where
  "video_template = [Literal ''video-'', Named ''index'', Literal ''.mp4'']"

text \<open>The calls the coroutine \<open>main_process\<close> makes itself, and its result.\<close>

definition main_process_coroutine ::
  "world \<Rightarrow> path \<Rightarrow> path \<Rightarrow> path \<Rightarrow> path \<Rightarrow> int \<Rightarrow> string \<Rightarrow> string \<Rightarrow> path res" where
  "main_process_coroutine w ppt_file_path output_file_path soffice_file_path ffmpeg_file_path
       dpi voice encoding =
     (let tmp_dir_path = main_tmp_dir w
      in bind (get_notes_from_ppt_file w ppt_file_path) (\<lambda>notes.
         let audio_dir_path = joinpath tmp_dir_path ''audios''
         in bind (emit (Mkdir audio_dir_path)) (\<lambda>_.
         bind (convert_notes_to_audio w (available_notes notes) audio_dir_path note_template
                 voice) (\<lambda>audio_file_paths.
         let image_dir_path = joinpath tmp_dir_path ''images''
         in bind (emit (Mkdir image_dir_path)) (\<lambda>_.
         bind (convert_ppt_to_image w ppt_file_path image_dir_path dpi page_template
                 soffice_file_path encoding (Some (available_pages notes)))
           (\<lambda>image_file_paths.
         let video_dir_path = joinpath tmp_dir_path ''videos''
         in bind (emit (Mkdir video_dir_path)) (\<lambda>_.
         bind (convert_videos w image_file_paths audio_file_paths video_dir_path
                 video_template ffmpeg_file_path encoding) (\<lambda>video_file_paths.
         concat_videos w video_file_paths output_file_path ffmpeg_file_path
           encoding))))))))"

text \<open>
  The worker thread of the executor goes on while the coroutine runs. A save job that was
  submitted and not awaited, and had not run when its page task went on, is done after the
  number of further events the world gives for it; a job that is still waiting when the
  run ends does not appear in the trace of the run.
\<close>

fun submitted_save :: "world \<Rightarrow> event \<Rightarrow> (nat \<times> pixmap \<times> path) list" where
  "submitted_save w (ExecutorSubmit (SaveJob pix p)) =
     (if save_runs_early w pix p then []
      else case save_runs_late w pix p of None \<Rightarrow> [] | Some d \<Rightarrow> [(d, pix, p)])"
| "submitted_save w ev = []"

fun late_saves :: "world \<Rightarrow> (nat \<times> pixmap \<times> path) list \<Rightarrow> event list \<Rightarrow> event list" where
  "late_saves w waiting [] = []"
| "late_saves w waiting (ev # tr) =
     ev # map (\<lambda>(d, pix, p). ExecutorDone (SaveJob pix p))
            (filter (\<lambda>(d, pix, p). d = 0) (waiting @ submitted_save w ev))
        @ late_saves w
            (map (\<lambda>(d, pix, p). (d - 1, pix, p))
               (filter (\<lambda>(d, pix, p). d \<noteq> 0) (waiting @ submitted_save w ev)))
            tr"

definition main_process ::
  "world \<Rightarrow> path \<Rightarrow> path \<Rightarrow> path \<Rightarrow> path \<Rightarrow> int \<Rightarrow> string \<Rightarrow> string \<Rightarrow> path res" where
  "main_process w ppt_file_path output_file_path soffice_file_path ffmpeg_file_path dpi voice
       encoding =
     (case main_process_coroutine w ppt_file_path output_file_path soffice_file_path
             ffmpeg_file_path dpi voice encoding of
        (tr, r) \<Rightarrow> (late_saves w [] tr, r))"

section \<open>Kinds of events\<close>





section \<open>Concrete decks and worlds\<close>

definition noted :: "string \<Rightarrow> slide" where
  "noted t = Slide (Some (NotesSlide (Some (TextFrame t))))"

definition bare :: slide where
  "bare = Slide None"

text \<open>
  A world in which every collaborator succeeds: the deck has the given slides, the
  converted PDF has \<open>n\<close> pages, tasks complete in the order of their creation, and no
  save job runs before the run ends.
\<close>

definition ok_world :: "slide list \<Rightarrow> nat \<Rightarrow> world" where
  "ok_world slides n =
     \<lparr> presentation = (\<lambda>p. Inr slides),
       tts_save = (\<lambda>note voice p. None),
       subprocess_run = (\<lambda>args encoding. Inr \<lparr> returncode = 0, stdout = [], stderr = [] \<rparr>),
       pymupdf_open = (\<lambda>p. Inr (map Page [0..<n])),
       get_pixmap = (\<lambda>page dpi. Inr (Pixmap page dpi)),
       pix_save = (\<lambda>pix p. None),
       save_runs_early = (\<lambda>pix p. False),
       save_runs_late = (\<lambda>pix p. None),
       tts_completion = [],
       raster_completion = [],
       tts_cancel_lag = 0,
       raster_cancel_lag = 0,
       stem = (\<lambda>p. ''deck''),
       resolve = (\<lambda>p. p),
       main_tmp_dir = ''/tmp/main'',
       pdf_tmp_dir = ''/tmp/pdf'',
       concat_tmp_dir = ''/tmp/concat'' \<rparr>"

text \<open>
  Worlds in which one collaborator misbehaves: the conversion tool exits with code zero
  after writing a warning to its error stream; saving a pixmap raises; the concatenation
  tool fails; a save job ends two events after its page task has returned; the speech
  service fails for every note and one more task completes after the first failure; the
  speech service fails.
\<close>

definition warning_world :: world where
  "warning_world =
     (ok_world [noted ''one''] 1)
       \<lparr> subprocess_run := (\<lambda>args encoding.
            Inr \<lparr> returncode = 0, stdout = [], stderr = ''warning'' \<rparr>) \<rparr>"

definition failing_save_world :: world where
  "failing_save_world =
     (ok_world [noted ''one''] 1)
       \<lparr> pix_save := (\<lambda>pix p. Some (CollaboratorError ''disk full'')) \<rparr>"

definition concat_fails_world :: "slide list \<Rightarrow> nat \<Rightarrow> world" where
  "concat_fails_world slides n =
     (ok_world slides n)
       \<lparr> subprocess_run := (\<lambda>args encoding.
            if take 1 (drop 1 args) = [''-f'']
            then Inr \<lparr> returncode = 1, stdout = [], stderr = ''Invalid data found'' \<rparr>
            else Inr \<lparr> returncode = 0, stdout = [], stderr = [] \<rparr>) \<rparr>"


definition two_failures_world :: world where
  "two_failures_world =
     (ok_world [] 0)
       \<lparr> tts_save := (\<lambda>note voice p. Some (CollaboratorError note)), tts_cancel_lag := 1 \<rparr>"


section \<open>Properties of extraction and selection\<close>

lemma enumerate_py_length: "length (enumerate_py n xs) = length xs"
  by (induction xs arbitrary: n) auto

lemma enumerate_py_nth:
  "i < length xs \<Longrightarrow> enumerate_py n xs ! i = (n + int i, xs ! i)"
proof (induction xs arbitrary: n i)
  case Nil
  then show ?case by simp
next
  case (Cons x xs)
  then show ?case by (cases i) auto
qed

lemma enumerate_py_set:
  "set (enumerate_py n xs) = {(n + int i, xs ! i) | i. i < length xs}"
  by (auto simp: set_conv_nth enumerate_py_length enumerate_py_nth) (metis enumerate_py_nth)

lemma enumerate_py_fst: "map fst (enumerate_py n xs) = map (\<lambda>i. n + int i) [0..<length xs]"
  by (rule nth_equalityI) (simp_all add: enumerate_py_length enumerate_py_nth)

lemma enumerate_py_sorted: "sorted_wrt (<) (map fst (enumerate_py n xs))"
  by (induction xs arbitrary: n) (auto simp: enumerate_py_set)

lemma kept_embed:
  "map (\<lambda>(p, s). (p, Some s)) (List.map_filter narrow (filter has_note ts)) = filter has_note ts"
proof (induction ts)
  case Nil
  then show ?case by (simp add: map_filter_simps)
next
  case (Cons t ts)
  then show ?case
    by (cases t) (auto simp: map_filter_simps split: option.splits)
qed

lemma kept_fst:
  "map fst (List.map_filter narrow (filter has_note ts)) = map fst (filter has_note ts)"
proof -
  have "map fst (map (\<lambda>(p, s). (p, Some s)) (List.map_filter narrow (filter has_note ts)))
        = map fst (List.map_filter narrow (filter has_note ts))"
    by (simp add: case_prod_unfold comp_def)
  then show ?thesis by (simp add: kept_embed)
qed

lemma available_pages_sorted: "sorted_wrt (<) (available_pages ns)"
proof -
  have "sorted_wrt (\<lambda>x y. fst x < fst y) (enumerate_py 1 ns)"
    using enumerate_py_sorted [of 1 ns] by (simp add: sorted_wrt_map)
  then have "sorted_wrt (\<lambda>x y. fst x < fst y) (filter has_note (enumerate_py 1 ns))"
    by (rule sorted_wrt_filter)
  then show ?thesis
    by (simp add: available_pages_def available_pages_and_notes_def kept_fst sorted_wrt_map)
qed

lemma kept_member:
  "(p, s) \<in> set (available_pages_and_notes ns) \<longleftrightarrow>
     1 \<le> p \<and> p \<le> int (length ns) \<and> ns ! nat (p - 1) = Some s \<and> s \<noteq> []"
proof -
  have "(p, s) \<in> set (available_pages_and_notes ns) \<longleftrightarrow>
        (p, Some s) \<in> set (map (\<lambda>(p, s). (p, Some s)) (available_pages_and_notes ns))"
    by auto
  also have "\<dots> \<longleftrightarrow> (p, Some s) \<in> set (filter has_note (enumerate_py 1 ns))"
    by (simp only: available_pages_and_notes_def kept_embed)
  also have "\<dots> \<longleftrightarrow> 1 \<le> p \<and> p \<le> int (length ns) \<and> ns ! nat (p - 1) = Some s \<and> s \<noteq> []"
    by (auto simp: enumerate_py_set) (rule exI [of _ "nat (p - 1)"], auto)
  finally show ?thesis .
qed

lemma get_note_from_slide_nonempty: "get_note_from_slide s \<noteq> Some []"
  by (simp add: get_note_from_slide_def Let_def split: option.splits)

text \<open>
  C7. For every deck the parser can load, note extraction returns one entry per slide, in
  slide order; each entry is the no-note value or a non-empty note string. A slide
  without a notes slide, a notes slide without a text frame and a text frame whose text has
  length zero all give the no-note value; a frame with non-empty text gives that text.
\<close>

theorem note_extraction_entries:
  assumes "presentation w ppt_file_path = Inr slides"
  shows "(\<exists>ns. get_notes_from_ppt_file w ppt_file_path = ([], Inr ns)
            \<and> length ns = length slides
            \<and> (\<forall>i<length slides. ns ! i = get_note_from_slide (slides ! i))
            \<and> (\<forall>n\<in>set ns. n = None \<or> (\<exists>t. n = Some t \<and> t \<noteq> [])))
         \<and> get_note_from_slide (Slide None) = None
         \<and> get_note_from_slide (Slide (Some (NotesSlide None))) = None
         \<and> get_note_from_slide (Slide (Some (NotesSlide (Some (TextFrame []))))) = None
         \<and> (t \<noteq> [] \<longrightarrow>
              get_note_from_slide (Slide (Some (NotesSlide (Some (TextFrame t))))) = Some t)"
proof -
  let ?ns = "map get_note_from_slide slides"
  have run: "get_notes_from_ppt_file w ppt_file_path = ([], Inr ?ns)"
    using assms by (simp add: get_notes_from_ppt_file_def bind_def lift_def ret_def)
  have entries: "\<forall>n\<in>set ?ns. n = None \<or> (\<exists>t. n = Some t \<and> t \<noteq> [])"
  proof
    fix n assume "n \<in> set ?ns"
    then obtain s where "n = get_note_from_slide s" by auto
    then have "n \<noteq> Some []" by (simp add: get_note_from_slide_nonempty)
    then show "n = None \<or> (\<exists>t. n = Some t \<and> t \<noteq> [])" by (cases n) auto
  qed
  have "\<exists>ns. get_notes_from_ppt_file w ppt_file_path = ([], Inr ns)
            \<and> length ns = length slides
            \<and> (\<forall>i<length slides. ns ! i = get_note_from_slide (slides ! i))
            \<and> (\<forall>n\<in>set ns. n = None \<or> (\<exists>t. n = Some t \<and> t \<noteq> []))"
    using run entries by (intro exI [of _ ?ns]) simp
  then show ?thesis
    by (simp add: get_note_from_slide_def has_notes_slide_def)
qed

theorem note_extraction_entries_witness:
  "get_notes_from_ppt_file (ok_world [bare, noted ''hi'', noted [], Slide (Some (NotesSlide None))] 4)
     ''deck.pptx'' = ([], Inr [None, Some ''hi'', None, None])"
proof -
  let ?slides = "[bare, noted ''hi'', noted [], Slide (Some (NotesSlide None))]"
  have h: "presentation (ok_world ?slides 4) ''deck.pptx'' = Inr ?slides"
    by (simp add: ok_world_def)
  have "get_notes_from_ppt_file (ok_world ?slides 4) ''deck.pptx''
          = ([], Inr (map get_note_from_slide ?slides))"
    using note_extraction_entries [OF h, of "''hi''"]
    by (simp add: get_notes_from_ppt_file_def bind_def lift_def ret_def h)
  then show ?thesis
    by (simp add: get_note_from_slide_def has_notes_slide_def bare_def noted_def)
qed

text \<open>
  C8. The slide selector is a function of the note sequence alone. It returns exactly the
  pairs (1-based position, note text) of the entries that carry a non-empty note, in
  increasing position, so in the order of the input; the position list and the note list
  are its two projections and have equal length.
\<close>

theorem slide_selector_kept:
  "((p, s) \<in> set (available_pages_and_notes ns) \<longleftrightarrow>
      1 \<le> p \<and> p \<le> int (length ns) \<and> ns ! nat (p - 1) = Some s \<and> s \<noteq> [])
   \<and> sorted_wrt (<) (available_pages ns)
   \<and> map (\<lambda>(p, s). (p, Some s)) (available_pages_and_notes ns)
       = filter has_note (enumerate_py 1 ns)
   \<and> length (available_pages ns) = length (available_notes ns)
   \<and> zip (available_pages ns) (available_notes ns) = available_pages_and_notes ns"
proof -
  have "map (\<lambda>(p, s). (p, Some s)) (available_pages_and_notes ns)
          = filter has_note (enumerate_py 1 ns)"
    by (simp only: available_pages_and_notes_def kept_embed)
  moreover have "zip (available_pages ns) (available_notes ns) = available_pages_and_notes ns"
    by (simp add: available_pages_def available_notes_def zip_map_fst_snd)
  ultimately show ?thesis
    by (simp add: kept_member available_pages_sorted)
       (simp add: available_pages_def available_notes_def)
qed

theorem slide_selector_kept_witness:
  "available_pages_and_notes [None, Some ''hi'', Some [], None, Some ''yo'']
     = [(2, ''hi''), (5, ''yo'')]
   \<and> (5, ''yo'') \<in> set (available_pages_and_notes [None, Some ''hi'', Some [], None, Some ''yo''])
   \<and> sorted_wrt (<) (available_pages [None, Some ''hi'', Some [], None, Some ''yo''])"
  using slide_selector_kept [of 5 "''yo''" "[None, Some ''hi'', Some [], None, Some ''yo'']"]
  by (simp add: available_pages_and_notes_def map_filter_simps)

section \<open>Sequencing and task groups\<close>

lemma bind_Inr: "bind (t, Inr x) f = (t @ fst (f x), snd (f x))"
  by (simp add: bind_def split: prod.splits)

lemma bind_Inl: "bind (t, Inl e) f = (t, Inl e)"
  by (simp add: bind_def)

lemma bind_ret: "bind (ret x) f = f x"
  by (simp add: bind_def ret_def split: prod.splits)

lemma bind_raise: "bind (raise e) f = raise e"
  by (simp add: bind_def raise_def)

lemma bind_emit: "bind (emit ev) f = (ev # fst (f ()), snd (f ()))"
  by (simp add: bind_def emit_def split: prod.splits)

lemma bind_fst_snd:
  "bind m f = (case snd m of Inl e \<Rightarrow> (fst m, Inl e) | Inr x \<Rightarrow> (fst m @ fst (f x), snd (f x)))"
  by (cases m) (simp add: bind_def split: sum.splits prod.splits)

lemma run_tasks_ok:
  assumes "\<forall>i\<in>set order. snd (after_await (tasks ! i)) = Inr (r i)"
  shows "run_tasks tasks lag order done
           = (concat (map (\<lambda>i. fst (after_await (tasks ! i))) order),
              Inr (fold (\<lambda>i d. d[i := Some (r i)]) order done))"
  using assms
proof (induction order arbitrary: "done")
  case Nil
  then show ?case by (simp add: ret_def)
next
  case (Cons i order)
  obtain t where ti: "after_await (tasks ! i) = (t, Inr (r i))"
    using Cons.prems by (cases "after_await (tasks ! i)") auto
  have "run_tasks tasks lag order (done[i := Some (r i)])
          = (concat (map (\<lambda>i. fst (after_await (tasks ! i))) order),
             Inr (fold (\<lambda>i d. d[i := Some (r i)]) order (done[i := Some (r i)])))"
    using Cons.prems by (intro Cons.IH) simp
  then show ?case
    by (simp add: ti bind_Inr)
qed

lemma fold_update_nth:
  "j < length d \<Longrightarrow>
     fold (\<lambda>i d. d[i := Some (r i)]) order d ! j = (if j \<in> set order then Some (r j) else d ! j)"
  by (induction order arbitrary: d) (auto simp: nth_list_update)

lemma fold_update_length: "length (fold (\<lambda>i d. d[i := Some (r i)]) order d) = length d"
  by (induction order arbitrary: d) auto

lemma fold_update_all:
  assumes "set order = {0..<n}"
  shows "fold (\<lambda>i d. d[i := Some (r i)]) order (replicate n None) = map (\<lambda>i. Some (r i)) [0..<n]"
  by (rule nth_equalityI) (simp_all add: fold_update_length fold_update_nth assms)

lemma completion_order_set: "set (completion_order n sched) = {0..<n}"
  by (auto simp: completion_order_def)

lemma completion_order_distinct: "distinct (completion_order n sched)"
  by (auto simp: completion_order_def)

lemma completion_order_perm:
  "distinct p \<Longrightarrow> set p = {0..<n} \<Longrightarrow> completion_order n p = p"
proof -
  assume d: "distinct p" and s: "set p = {0..<n}"
  have "filter (\<lambda>i. i < n) p = p" using s by (auto simp: filter_id_conv)
  moreover have "filter (\<lambda>i. i \<notin> set p) [0..<n] = []" using s by (auto simp: filter_empty_conv)
  ultimately show ?thesis using d by (simp add: completion_order_def distinct_remdups_id)
qed

lemma task_results_Some: "task_results (map Some xs) = Inr xs"
  by (induction xs) auto

lemma task_group_ok:
  assumes "\<forall>i<length tasks. snd (after_await (tasks ! i)) = Inr (r i)"
  shows "bind (task_group tasks sched lag) (\<lambda>d. lift (task_results d))
           = (concat (map before_await tasks)
              @ concat (map (\<lambda>i. fst (after_await (tasks ! i)))
                          (completion_order (length tasks) sched)),
              Inr (map r [0..<length tasks]))"
proof -
  let ?order = "completion_order (length tasks) sched"
  have "\<forall>i\<in>set ?order. snd (after_await (tasks ! i)) = Inr (r i)"
    using assms by (simp add: completion_order_set)
  then have run: "run_tasks tasks lag ?order (replicate (length tasks) None)
      = (concat (map (\<lambda>i. fst (after_await (tasks ! i))) ?order),
         Inr (fold (\<lambda>i d. d[i := Some (r i)]) ?order (replicate (length tasks) None)))"
    by (rule run_tasks_ok)
  have "fold (\<lambda>i d. d[i := Some (r i)]) ?order (replicate (length tasks) None)
      = map Some (map r [0..<length tasks])"
    by (simp add: fold_update_all completion_order_set comp_def)
  with run have tg: "task_group tasks sched lag
      = (concat (map before_await tasks)
         @ concat (map (\<lambda>i. fst (after_await (tasks ! i))) ?order),
         Inr (map Some (map r [0..<length tasks])))"
    by (simp add: task_group_def bind_Inr)
  show ?thesis
    unfolding tg by (simp only: bind_Inr lift_def task_results_Some fst_conv snd_conv append_Nil2)
qed

lemma create_task_ret [simp]:
  "before_await (create_task (ret x) rest) = []"
  "after_await (create_task (ret x) rest) = rest x"
  by (simp_all add: create_task_def ret_def)

lemma convert_note_to_audio_task_simps [simp]:
  "before_await (convert_note_to_audio_task w nt p voice) = []"
  "after_await (convert_note_to_audio_task w nt p voice) = convert_note_to_audio w nt p voice"
  by (simp_all add: convert_note_to_audio_task_def)

section \<open>The audio stage\<close>

lemma digit_char_inj: "a < 10 \<Longrightarrow> b < 10 \<Longrightarrow> digit_char a = digit_char b \<Longrightarrow> a = b"
proof -
  assume a: "a < 10" and b: "b < 10" and e: "digit_char a = digit_char b"
  have A: "a \<in> {0, 1, 2, 3, 4, 5, 6, 7, 8, 9}" using a by auto
  have B: "b \<in> {0, 1, 2, 3, 4, 5, 6, 7, 8, 9}" using b by auto
  show ?thesis using A B e by (auto simp: digit_char_def)
qed

lemma str_nat_nonempty: "str_nat n \<noteq> []"
  by (subst str_nat.simps) simp

lemma str_nat_inj: "str_nat m = str_nat n \<Longrightarrow> m = n"
proof (induction m arbitrary: n rule: str_nat.induct)
  case (1 m)
  show ?case
  proof (cases "m < 10")
    case True
    note m = this
    show ?thesis
    proof (cases "n < 10")
      case True
      with m "1.prems" show ?thesis
        by (simp add: str_nat.simps [of m] str_nat.simps [of n] digit_char_inj)
    next
      case False
      with m "1.prems" str_nat_nonempty [of "n div 10"] show ?thesis
        by (simp add: str_nat.simps [of m] str_nat.simps [of n])
    qed
  next
    case False
    note m = this
    show ?thesis
    proof (cases "n < 10")
      case True
      with m "1.prems" str_nat_nonempty [of "m div 10"] show ?thesis
        by (simp add: str_nat.simps [of m] str_nat.simps [of n])
    next
      case False
      with m "1.prems" have eq: "str_nat (m div 10) = str_nat (n div 10)"
        and d: "digit_char (m mod 10) = digit_char (n mod 10)"
        by (simp_all add: str_nat.simps [of m] str_nat.simps [of n])
      have "m div 10 = n div 10" using "1.IH" [OF m eq] .
      moreover have "m mod 10 = n mod 10" using d by (intro digit_char_inj) simp_all
      ultimately show ?thesis by (metis div_mult_mod_eq)
    qed
  qed
qed

lemma str_int_inj: "0 \<le> i \<Longrightarrow> 0 \<le> j \<Longrightarrow> str_int i = str_int j \<Longrightarrow> i = j"
  using str_nat_inj [of "nat i" "nat j"] by (simp add: str_int_def)

lemma substitute_note_template:
  "substitute note_template i = Inr (''note-'' @ str_int i @ ''.aac'')"
  by (simp add: note_template_def)


lemma substitute_video_template:
  "substitute video_template i = Inr (''video-'' @ str_int i @ ''.mp4'')"
  by (simp add: video_template_def)

lemma concat_singletons:
  "\<forall>x\<in>set xs. f x = [g x] \<Longrightarrow> concat (map f xs) = map g xs"
  by (induction xs) auto

lemma audio_tasks_ok:
  assumes "\<forall>i. substitute tmpl i = Inr (name i)"
  shows "audio_tasks w ts dir tmpl voice
           = Inr (map (\<lambda>(i, note). convert_note_to_audio_task w note (joinpath dir (name i)) voice)
                    ts)"
  by (induction ts) (auto simp: assms)

lemma convert_note_to_audio_fst:
  "fst (convert_note_to_audio w note p voice) = [TtsSave note voice p]"
  by (simp add: convert_note_to_audio_def bind_emit raise_def ret_def split: option.splits)

lemma convert_note_to_audio_snd:
  "snd (convert_note_to_audio w note p voice)
     = (case tts_save w note voice p of None \<Rightarrow> Inr p | Some e \<Rightarrow> Inl e)"
  by (simp add: convert_note_to_audio_def bind_emit raise_def ret_def split: option.splits)

lemma convert_note_to_audio_sched [simp]:
  "convert_note_to_audio (w\<lparr>tts_completion := sched\<rparr>) = convert_note_to_audio w"
  by (intro ext) (simp add: convert_note_to_audio_def)

lemma convert_notes_to_audio_ok:
  assumes sub: "\<forall>i. substitute tmpl i = Inr (name i)"
    and ok: "\<forall>i<length ns. tts_save w (ns ! i) voice (joinpath dir (name (int i + 1))) = None"
  shows "convert_notes_to_audio w ns dir tmpl voice
           = (map (\<lambda>i. TtsSave (ns ! i) voice (joinpath dir (name (int i + 1))))
                (completion_order (length ns) (tts_completion w)),
              Inr (map (\<lambda>i. joinpath dir (name (int i + 1))) [0..<length ns]))"
proof -
  let ?p = "\<lambda>i::nat. joinpath dir (name (int i + 1))"
  let ?tasks = "map (\<lambda>(i, nt). convert_note_to_audio_task w nt (joinpath dir (name i)) voice)
                  (enumerate_py 1 ns)"
  have nth: "?tasks ! i = convert_note_to_audio_task w (ns ! i) (?p i) voice"
    if "i < length ns" for i
    using that by (simp add: enumerate_py_length enumerate_py_nth add.commute)
  have r: "\<forall>i<length ?tasks. snd (after_await (?tasks ! i)) = Inr (?p i)"
  proof (intro allI impI)
    fix i assume "i < length ?tasks"
    then have i: "i < length ns" by (simp add: enumerate_py_length)
    show "snd (after_await (?tasks ! i)) = Inr (?p i)"
      unfolding nth [OF i] using ok i by (simp add: convert_note_to_audio_snd)
  qed
  have started: "concat (map before_await ?tasks) = []"
    by (simp add: case_prod_unfold)
  have tr: "concat (map (\<lambda>i. fst (after_await (?tasks ! i)))
                      (completion_order (length ns) sched))
              = map (\<lambda>i. TtsSave (ns ! i) voice (?p i)) (completion_order (length ns) sched)"
    for sched
    by (rule concat_singletons) (simp add: completion_order_set nth convert_note_to_audio_fst)
  have "bind (task_group ?tasks (tts_completion w) (tts_cancel_lag w))
          (\<lambda>d. lift (task_results d))
        = (map (\<lambda>i. TtsSave (ns ! i) voice (?p i))
             (completion_order (length ns) (tts_completion w)),
           Inr (map ?p [0..<length ns]))"
    unfolding task_group_ok [OF r] started
    using tr [of "tts_completion w"] by (simp add: enumerate_py_length)
  then show ?thesis
    unfolding convert_notes_to_audio_def audio_tasks_ok [OF sub] by simp
qed

lemma convert_note_to_audio_task_runs:
  "bind (before_await (convert_note_to_audio_task w nt p voice), Inr ())
     (\<lambda>_. after_await (convert_note_to_audio_task w nt p voice))
   = convert_note_to_audio w nt p voice"
  by (simp add: bind_Inr)

lemma task_group_collects_errors:
  "convert_notes_to_audio two_failures_world [''a'', ''b'', ''c''] ''audios'' note_template
       ''voice''
     = ([TtsSave ''a'' ''voice'' ''audios/note-1.aac'',
         TtsSave ''b'' ''voice'' ''audios/note-2.aac''],
        Inl (ExceptionGroup [CollaboratorError ''a'', CollaboratorError ''b'']))"
  by code_simp

lemma indexed_paths_distinct:
  "distinct (map (\<lambda>i. joinpath dir (pre @ str_int (int i + 1) @ suf)) [0..<n])"
proof -
  have "inj_on (\<lambda>i. joinpath dir (pre @ str_int (int i + 1) @ suf)) (set [0..<n])"
    by (rule inj_onI) (auto simp: joinpath_def dest: str_int_inj [rotated 2])
  then show ?thesis by (simp add: distinct_map)
qed

text \<open>
  C3. For every list of kept notes for which the speech service succeeds, the audio stage
  makes exactly one synthesis call per note, to the file note-<n> with n the 1-based
  position of the note; the files are pairwise distinct; and it returns these paths in the
  order of the notes, whatever the order in which the tasks complete: the calls appear in
  the trace in completion order, and every permutation of the tasks is a completion order.
\<close>

theorem audio_synthesis_ordered:
  assumes "\<forall>i<length ns. tts_save w (ns ! i) voice
             (joinpath output_dir (''note-'' @ str_int (int i + 1) @ ''.aac'')) = None"
  shows "snd (convert_notes_to_audio (w\<lparr>tts_completion := sched\<rparr>) ns output_dir note_template voice)
           = Inr (map (\<lambda>i. joinpath output_dir (''note-'' @ str_int (int i + 1) @ ''.aac''))
                    [0..<length ns])
         \<and> fst (convert_notes_to_audio (w\<lparr>tts_completion := sched\<rparr>) ns output_dir note_template voice)
           = map (\<lambda>i. TtsSave (ns ! i) voice
                         (joinpath output_dir (''note-'' @ str_int (int i + 1) @ ''.aac'')))
               (completion_order (length ns) sched)
         \<and> distinct (completion_order (length ns) sched)
         \<and> set (completion_order (length ns) sched) = {0..<length ns}
         \<and> (distinct sched \<and> set sched = {0..<length ns} \<longrightarrow>
              completion_order (length ns) sched = sched)
         \<and> distinct (map (\<lambda>i. joinpath output_dir (''note-'' @ str_int (int i + 1) @ ''.aac''))
                        [0..<length ns])"
proof -
  let ?w = "w\<lparr>tts_completion := sched\<rparr>"
  have ok: "\<forall>i<length ns. tts_save ?w (ns ! i) voice
             (joinpath output_dir (''note-'' @ str_int (int i + 1) @ ''.aac'')) = None"
    using assms by simp
  have sub: "\<forall>i. substitute note_template i = Inr (''note-'' @ str_int i @ ''.aac'')"
    by (simp add: substitute_note_template)
  show ?thesis
    unfolding convert_notes_to_audio_ok [OF sub ok]
    using indexed_paths_distinct [of output_dir "''note-''" "''.aac''" "length ns"]
    by (simp add: completion_order_set completion_order_distinct completion_order_perm)
qed

theorem audio_synthesis_ordered_witness:
  "convert_notes_to_audio ((ok_world [] 0)\<lparr>tts_completion := [1, 0]\<rparr>) [''first'', ''second'']
       ''audios'' note_template ''voice''
     = ([TtsSave ''second'' ''voice'' ''audios/note-2.aac'',
         TtsSave ''first'' ''voice'' ''audios/note-1.aac''],
        Inr [''audios/note-1.aac'', ''audios/note-2.aac''])"
proof -
  have h: "\<forall>i<length [''first'', ''second'']. tts_save (ok_world [] 0) ([''first'', ''second''] ! i)
             ''voice'' (joinpath ''audios'' (''note-'' @ str_int (int i + 1) @ ''.aac'')) = None"
    by (simp add: ok_world_def)
  have o: "completion_order (Suc (Suc 0)) [Suc 0, 0] = [Suc 0, 0]"
    by code_simp
  show ?thesis
    using audio_synthesis_ordered [OF h, of "[1, 0]"]
    by (simp add: prod_eq_iff o joinpath_def str_int_def str_nat.simps digit_char_def)
qed

section \<open>The muxing stage\<close>

lemma subprocess_run_checked_fst:
  "fst (subprocess_run_checked w args enc) = [SubprocessRun args enc]"
  by (simp add: subprocess_run_checked_def bind_emit raise_def ret_def split: sum.splits)

lemma subprocess_run_checked_snd:
  "snd (subprocess_run_checked w args enc)
     = (case subprocess_run w args enc of
          Inl e \<Rightarrow> Inl e
        | Inr output \<Rightarrow>
            if returncode output \<noteq> 0
            then Inl (CalledProcessError (returncode output) args (stdout output) (stderr output))
            else Inr output)"
  by (simp add: subprocess_run_checked_def bind_emit raise_def ret_def split: sum.splits)

lemma subprocess_run_checked_ok:
  "subprocess_run w args enc = Inr output \<Longrightarrow> returncode output = 0 \<Longrightarrow>
     subprocess_run_checked w args enc = ([SubprocessRun args enc], Inr output)"
  by (simp add: prod_eq_iff subprocess_run_checked_fst subprocess_run_checked_snd)

lemma convert_video_ok:
  assumes "\<exists>output. subprocess_run w (ffmpeg_mux_args ffmpeg img aud out) enc = Inr output
             \<and> returncode output = 0"
  shows "convert_video w img aud out ffmpeg enc
           = ([SubprocessRun (ffmpeg_mux_args ffmpeg img aud out) enc], Inr out)"
  using assms by (auto simp: convert_video_def subprocess_run_checked_ok bind_Inr ret_def)

lemma zip_count_length: "length (zip_count n xs ys) = min (length xs) (length ys)"
  by (induction n xs ys rule: zip_count.induct) auto

lemma zip_count_nth:
  "i < length xs \<Longrightarrow> i < length ys \<Longrightarrow> zip_count n xs ys ! i = (n + int i, xs ! i, ys ! i)"
proof (induction n xs ys arbitrary: i rule: zip_count.induct)
  case (1 n x xs y ys)
  then show ?case by (cases i) auto
qed auto

lemma convert_videos_loop_ok:
  assumes sub: "\<forall>i. substitute tmpl i = Inr (name i)"
    and ok: "\<forall>(i, img, aud)\<in>set ts.
               \<exists>output. subprocess_run w (ffmpeg_mux_args ffmpeg img aud (joinpath dir (name i))) enc
                          = Inr output \<and> returncode output = 0"
  shows "convert_videos_loop w ts dir tmpl ffmpeg enc
           = (map (\<lambda>(i, img, aud).
                     SubprocessRun (ffmpeg_mux_args ffmpeg img aud (joinpath dir (name i))) enc) ts,
              Inr (map (\<lambda>(i, img, aud). joinpath dir (name i)) ts))"
  using ok
proof (induction ts)
  case Nil
  then show ?case by (simp add: ret_def)
next
  case (Cons t ts)
  obtain i img aud where t: "t = (i, img, aud)" by (cases t) auto
  have one: "convert_video w img aud (joinpath dir (name i)) ffmpeg enc
               = ([SubprocessRun (ffmpeg_mux_args ffmpeg img aud (joinpath dir (name i))) enc],
                  Inr (joinpath dir (name i)))"
    using Cons.prems by (intro convert_video_ok) (simp add: t)
  have rest: "convert_videos_loop w ts dir tmpl ffmpeg enc
           = (map (\<lambda>(i, img, aud).
                     SubprocessRun (ffmpeg_mux_args ffmpeg img aud (joinpath dir (name i))) enc) ts,
              Inr (map (\<lambda>(i, img, aud). joinpath dir (name i)) ts))"
    using Cons.prems by (intro Cons.IH) simp
  show ?case
    by (simp add: t sub one rest bind_Inr ret_def case_prod_unfold)
qed

lemma convert_videos_ok:
  assumes sub: "\<forall>i. substitute tmpl i = Inr (name i)"
    and ok: "\<forall>i<min (length imgs) (length auds).
               \<exists>output. subprocess_run w
                          (ffmpeg_mux_args ffmpeg (imgs ! i) (auds ! i)
                             (joinpath dir (name (int i + 1)))) enc
                          = Inr output \<and> returncode output = 0"
  shows "convert_videos w imgs auds dir tmpl ffmpeg enc
           = (map (\<lambda>i. SubprocessRun
                          (ffmpeg_mux_args ffmpeg (imgs ! i) (auds ! i)
                             (joinpath dir (name (int i + 1)))) enc)
                [0..<min (length imgs) (length auds)],
              Inr (map (\<lambda>i. joinpath dir (name (int i + 1)))
                     [0..<min (length imgs) (length auds)]))"
proof -
  let ?ts = "zip_count 1 imgs auds"
  let ?n = "min (length imgs) (length auds)"
  have nth: "?ts ! i = (int i + 1, imgs ! i, auds ! i)" if "i < ?n" for i
    using that by (simp add: zip_count_nth add.commute)
  have ts: "?ts = map (\<lambda>i. (int i + 1, imgs ! i, auds ! i)) [0..<?n]"
    by (rule nth_equalityI) (simp_all add: zip_count_length nth)
  have "\<forall>(i, img, aud)\<in>set ?ts.
               \<exists>output. subprocess_run w (ffmpeg_mux_args ffmpeg img aud (joinpath dir (name i))) enc
                          = Inr output \<and> returncode output = 0"
    using ok by (subst ts) auto
  from convert_videos_loop_ok [OF sub this]
  show ?thesis
    unfolding convert_videos_def by (simp add: ts comp_def)
qed


text \<open>
  C2. For image and audio lists of the same length whose encodes succeed, the muxing stage
  runs the encoder once per position, in increasing position; the call at position i is
  the encoder command line with image i as the looped input, audio i as the second input
  and video-<i+1> as the output; and the stage returns the clip paths in that order.
  For a five-slide deck with notes on slides 2 and 5 only, with the tasks of both branches
  completing in reverse order, clip 1 is made from page 2 and the audio of the note of
  slide 2, clip 2 from page 5 and the audio of the note of slide 5.
\<close>

theorem muxing_pairs_by_position:
  assumes "length images = length audios"
    and "\<forall>i<length images.
           \<exists>conv. subprocess_run w
                    [ffmpeg, ''-loop'', ''1'', ''-i'', images ! i, ''-i'', audios ! i,
                            ''-c:v'', ''libx264'', ''-c:a'', ''copy'', ''-shortest'', ''-y'',
                            joinpath dir (''video-'' @ str_int (int i + 1) @ ''.mp4'')] enc
                    = Inr conv \<and> returncode conv = 0"
  shows "convert_videos w images audios dir video_template ffmpeg enc
           = (map (\<lambda>i. SubprocessRun
                          [ffmpeg, ''-loop'', ''1'', ''-i'', images ! i, ''-i'', audios ! i,
                            ''-c:v'', ''libx264'', ''-c:a'', ''copy'', ''-shortest'', ''-y'',
                            joinpath dir (''video-'' @ str_int (int i + 1) @ ''.mp4'')] enc)
                [0..<length images],
              Inr (map (\<lambda>i. joinpath dir (''video-'' @ str_int (int i + 1) @ ''.mp4''))
                     [0..<length images]))
         \<and> main_process
             ((ok_world [bare, noted ''two'', bare, bare, noted ''five''] 5)
                \<lparr>tts_completion := [1, 0], raster_completion := [1, 0]\<rparr>)
             ''deck.pptx'' ''out.mp4'' ''soffice'' ''ffmpeg'' 75 ''voice'' ''utf-8''
           = ([Mkdir ''/tmp/main/audios'',
               TtsSave ''five'' ''voice'' ''/tmp/main/audios/note-2.aac'',
               TtsSave ''two'' ''voice'' ''/tmp/main/audios/note-1.aac'',
               Mkdir ''/tmp/main/images'',
               SubprocessRun [''soffice'', ''--headless'', ''--invisible'', ''--convert-to'',
                              ''pdf'', ''--outdir'', ''/tmp/pdf'', ''deck.pptx''] ''utf-8'',
               PdfOpen ''/tmp/pdf/deck.pdf'',
               ExecutorSubmit (GetPixmapJob (Page 1) 75),
               ExecutorSubmit (GetPixmapJob (Page 4) 75),
               ExecutorDone (GetPixmapJob (Page 4) 75),
               ExecutorSubmit (SaveJob (Pixmap (Page 4) 75) ''/tmp/main/images/page-5.png''),
               ExecutorDone (GetPixmapJob (Page 1) 75),
               ExecutorSubmit (SaveJob (Pixmap (Page 1) 75) ''/tmp/main/images/page-2.png''),
               Mkdir ''/tmp/main/videos'',
               SubprocessRun [''ffmpeg'', ''-loop'', ''1'',
                              ''-i'', ''/tmp/main/images/page-2.png'',
                              ''-i'', ''/tmp/main/audios/note-1.aac'',
                              ''-c:v'', ''libx264'', ''-c:a'', ''copy'', ''-shortest'', ''-y'',
                              ''/tmp/main/videos/video-1.mp4''] ''utf-8'',
               SubprocessRun [''ffmpeg'', ''-loop'', ''1'',
                              ''-i'', ''/tmp/main/images/page-5.png'',
                              ''-i'', ''/tmp/main/audios/note-2.aac'',
                              ''-c:v'', ''libx264'', ''-c:a'', ''copy'', ''-shortest'', ''-y'',
                              ''/tmp/main/videos/video-2.mp4''] ''utf-8'',
               WriteFile ''/tmp/concat/concat.txt''
                 (''file '' @ [CHR 0x27] @ ''/tmp/main/videos/video-1.mp4'' @ [CHR 0x27, CHR 0x0A]
                  @ ''file '' @ [CHR 0x27] @ ''/tmp/main/videos/video-2.mp4''
                  @ [CHR 0x27, CHR 0x0A]),
               SubprocessRun [''ffmpeg'', ''-f'', ''concat'', ''-safe'', ''0'',
                              ''-i'', ''/tmp/concat/concat.txt'', ''-c:v'', ''copy'',
                              ''-c:a'', ''aac'', ''-ar'', ''48000'', ''-y'', ''out.mp4'']
                 ''utf-8''],
              Inr ''out.mp4'')"
proof -
  have sub: "\<forall>i. substitute video_template i = Inr (''video-'' @ str_int i @ ''.mp4'')"
    by (simp add: substitute_video_template)
  have ok: "\<forall>i<min (length images) (length audios).
           \<exists>output. subprocess_run w
                      (ffmpeg_mux_args ffmpeg (images ! i) (audios ! i)
                         (joinpath dir (''video-'' @ str_int (int i + 1) @ ''.mp4''))) enc
                      = Inr output \<and> returncode output = 0"
    using assms by (simp add: ffmpeg_mux_args_def)
  have general: "convert_videos w images audios dir video_template ffmpeg enc
           = (map (\<lambda>i. SubprocessRun
                          [ffmpeg, ''-loop'', ''1'', ''-i'', images ! i, ''-i'', audios ! i,
                            ''-c:v'', ''libx264'', ''-c:a'', ''copy'', ''-shortest'', ''-y'',
                            joinpath dir (''video-'' @ str_int (int i + 1) @ ''.mp4'')] enc)
                [0..<length images],
              Inr (map (\<lambda>i. joinpath dir (''video-'' @ str_int (int i + 1) @ ''.mp4''))
                     [0..<length images]))"
    using convert_videos_ok [OF sub ok] assms(1) by (simp add: ffmpeg_mux_args_def)
  have example: "main_process
             ((ok_world [bare, noted ''two'', bare, bare, noted ''five''] 5)
                \<lparr>tts_completion := [1, 0], raster_completion := [1, 0]\<rparr>)
             ''deck.pptx'' ''out.mp4'' ''soffice'' ''ffmpeg'' 75 ''voice'' ''utf-8''
           = ([Mkdir ''/tmp/main/audios'',
               TtsSave ''five'' ''voice'' ''/tmp/main/audios/note-2.aac'',
               TtsSave ''two'' ''voice'' ''/tmp/main/audios/note-1.aac'',
               Mkdir ''/tmp/main/images'',
               SubprocessRun [''soffice'', ''--headless'', ''--invisible'', ''--convert-to'',
                              ''pdf'', ''--outdir'', ''/tmp/pdf'', ''deck.pptx''] ''utf-8'',
               PdfOpen ''/tmp/pdf/deck.pdf'',
               ExecutorSubmit (GetPixmapJob (Page 1) 75),
               ExecutorSubmit (GetPixmapJob (Page 4) 75),
               ExecutorDone (GetPixmapJob (Page 4) 75),
               ExecutorSubmit (SaveJob (Pixmap (Page 4) 75) ''/tmp/main/images/page-5.png''),
               ExecutorDone (GetPixmapJob (Page 1) 75),
               ExecutorSubmit (SaveJob (Pixmap (Page 1) 75) ''/tmp/main/images/page-2.png''),
               Mkdir ''/tmp/main/videos'',
               SubprocessRun [''ffmpeg'', ''-loop'', ''1'',
                              ''-i'', ''/tmp/main/images/page-2.png'',
                              ''-i'', ''/tmp/main/audios/note-1.aac'',
                              ''-c:v'', ''libx264'', ''-c:a'', ''copy'', ''-shortest'', ''-y'',
                              ''/tmp/main/videos/video-1.mp4''] ''utf-8'',
               SubprocessRun [''ffmpeg'', ''-loop'', ''1'',
                              ''-i'', ''/tmp/main/images/page-5.png'',
                              ''-i'', ''/tmp/main/audios/note-2.aac'',
                              ''-c:v'', ''libx264'', ''-c:a'', ''copy'', ''-shortest'', ''-y'',
                              ''/tmp/main/videos/video-2.mp4''] ''utf-8'',
               WriteFile ''/tmp/concat/concat.txt''
                 (''file '' @ [CHR 0x27] @ ''/tmp/main/videos/video-1.mp4'' @ [CHR 0x27, CHR 0x0A]
                  @ ''file '' @ [CHR 0x27] @ ''/tmp/main/videos/video-2.mp4''
                  @ [CHR 0x27, CHR 0x0A]),
               SubprocessRun [''ffmpeg'', ''-f'', ''concat'', ''-safe'', ''0'',
                              ''-i'', ''/tmp/concat/concat.txt'', ''-c:v'', ''copy'',
                              ''-c:a'', ''aac'', ''-ar'', ''48000'', ''-y'', ''out.mp4'']
                 ''utf-8''],
              Inr ''out.mp4'')"
    by code_simp
  from general example show ?thesis by (rule conjI)
qed

theorem muxing_pairs_by_position_witness:
  "convert_videos (ok_world [] 0) [''images/page-2.png'', ''images/page-5.png'']
       [''audios/note-1.aac'', ''audios/note-2.aac''] ''videos'' video_template ''ffmpeg'' ''utf-8''
     = ([SubprocessRun [''ffmpeg'', ''-loop'', ''1'', ''-i'', ''images/page-2.png'',
                        ''-i'', ''audios/note-1.aac'', ''-c:v'', ''libx264'', ''-c:a'', ''copy'',
                        ''-shortest'', ''-y'', ''videos/video-1.mp4''] ''utf-8'',
         SubprocessRun [''ffmpeg'', ''-loop'', ''1'', ''-i'', ''images/page-5.png'',
                        ''-i'', ''audios/note-2.aac'', ''-c:v'', ''libx264'', ''-c:a'', ''copy'',
                        ''-shortest'', ''-y'', ''videos/video-2.mp4''] ''utf-8''],
        Inr [''videos/video-1.mp4'', ''videos/video-2.mp4''])"
proof -
  let ?images = "[''images/page-2.png'', ''images/page-5.png'']"
  let ?audios = "[''audios/note-1.aac'', ''audios/note-2.aac'']"
  have len: "length ?images = length ?audios" by simp
  have h: "\<forall>i<length ?images.
           \<exists>conv. subprocess_run (ok_world [] 0)
                    [''ffmpeg'', ''-loop'', ''1'', ''-i'', ?images ! i, ''-i'', ?audios ! i,
                     ''-c:v'', ''libx264'', ''-c:a'', ''copy'', ''-shortest'', ''-y'',
                     joinpath ''videos'' (''video-'' @ str_int (int i + 1) @ ''.mp4'')]
                    ''utf-8''
                    = Inr conv \<and> returncode conv = 0"
    by (simp add: ok_world_def)
  show ?thesis
    using muxing_pairs_by_position [OF len h]
    by (simp add: joinpath_def str_int_def str_nat.simps digit_char_def)
qed

text \<open>
  C1 (as amended). The muxing stage raises no pairing error when the two lists differ in
  length: when the encodes succeed it makes one clip per position of the shorter list,
  clip i from image i and audio i, and leaves the surplus of the longer list unused.
\<close>

theorem muxing_truncates_to_shorter:
  assumes "\<forall>i<min (length images) (length audios).
           \<exists>output. subprocess_run w
                      (ffmpeg_mux_args ffmpeg (images ! i) (audios ! i)
                         (joinpath dir (''video-'' @ str_int (int i + 1) @ ''.mp4''))) enc
                      = Inr output \<and> returncode output = 0"
  shows "convert_videos w images audios dir video_template ffmpeg enc
           = (map (\<lambda>i. SubprocessRun
                          (ffmpeg_mux_args ffmpeg (images ! i) (audios ! i)
                             (joinpath dir (''video-'' @ str_int (int i + 1) @ ''.mp4''))) enc)
                [0..<min (length images) (length audios)],
              Inr (map (\<lambda>i. joinpath dir (''video-'' @ str_int (int i + 1) @ ''.mp4''))
                     [0..<min (length images) (length audios)]))"
proof -
  have sub: "\<forall>i. substitute video_template i = Inr (''video-'' @ str_int i @ ''.mp4'')"
    by (simp add: substitute_video_template)
  show ?thesis
    using convert_videos_ok [OF sub assms] .
qed

theorem muxing_truncates_to_shorter_witness:
  "convert_videos (ok_world [] 0) [''images/page-1.png'']
       [''audios/note-1.aac'', ''audios/note-2.aac''] ''videos'' video_template ''ffmpeg'' ''utf-8''
     = ([SubprocessRun
           (ffmpeg_mux_args ''ffmpeg'' ''images/page-1.png'' ''audios/note-1.aac''
              ''videos/video-1.mp4'') ''utf-8''],
        Inr [''videos/video-1.mp4''])"
proof -
  let ?images = "[''images/page-1.png'']"
  let ?audios = "[''audios/note-1.aac'', ''audios/note-2.aac'']"
  have h: "\<forall>i<min (length ?images) (length ?audios).
           \<exists>output. subprocess_run (ok_world [] 0)
                      (ffmpeg_mux_args ''ffmpeg'' (?images ! i) (?audios ! i)
                         (joinpath ''videos'' (''video-'' @ str_int (int i + 1) @ ''.mp4'')))
                      ''utf-8''
                      = Inr output \<and> returncode output = 0"
    by (simp add: ok_world_def)
  show ?thesis
    using muxing_truncates_to_shorter [OF h]
    by (simp add: joinpath_def str_int_def str_nat.simps digit_char_def)
qed

text \<open>
  A deck of two slides, both with notes, whose converted PDF has a single page: the audio
  branch returns two paths, the image branch one, and the run succeeds with a single clip.
\<close>

theorem pairing_mismatch_counterexample:
  "snd (convert_notes_to_audio (ok_world [noted ''one'', noted ''two''] 1)
          (available_notes [Some ''one'', Some ''two'']) ''/tmp/main/audios'' note_template ''voice'')
     = Inr [''/tmp/main/audios/note-1.aac'', ''/tmp/main/audios/note-2.aac'']
   \<and> snd (convert_ppt_to_image (ok_world [noted ''one'', noted ''two''] 1) ''deck.pptx''
            ''/tmp/main/images'' 75 page_template ''soffice'' ''utf-8''
            (Some (available_pages [Some ''one'', Some ''two''])))
     = Inr [''/tmp/main/images/page-1.png'']
   \<and> main_process (ok_world [noted ''one'', noted ''two''] 1)
       ''deck.pptx'' ''out.mp4'' ''soffice'' ''ffmpeg'' 75 ''voice'' ''utf-8''
     = ([Mkdir ''/tmp/main/audios'',
         TtsSave ''one'' ''voice'' ''/tmp/main/audios/note-1.aac'',
         TtsSave ''two'' ''voice'' ''/tmp/main/audios/note-2.aac'',
         Mkdir ''/tmp/main/images'',
         SubprocessRun (soffice_args ''soffice'' ''/tmp/pdf'' ''deck.pptx'') ''utf-8'',
         PdfOpen ''/tmp/pdf/deck.pdf'',
         ExecutorSubmit (GetPixmapJob (Page 0) 75),
         ExecutorDone (GetPixmapJob (Page 0) 75),
         ExecutorSubmit (SaveJob (Pixmap (Page 0) 75) ''/tmp/main/images/page-1.png''),
         Mkdir ''/tmp/main/videos'',
         SubprocessRun
           (ffmpeg_mux_args ''ffmpeg'' ''/tmp/main/images/page-1.png''
              ''/tmp/main/audios/note-1.aac'' ''/tmp/main/videos/video-1.mp4'') ''utf-8'',
         WriteFile ''/tmp/concat/concat.txt''
           (manifest (ok_world [] 0) [''/tmp/main/videos/video-1.mp4'']),
         SubprocessRun
           (ffmpeg_concat_args ''ffmpeg'' ''/tmp/concat/concat.txt'' ''out.mp4'') ''utf-8''],
        Inr ''out.mp4'')"
  by code_simp

section \<open>The conversion step\<close>

lemma bind_snd_Inr:
  "snd (bind m f) = Inr y \<Longrightarrow> \<exists>x. snd m = Inr x \<and> snd (f x) = Inr y"
  by (cases m) (auto simp: bind_def split: sum.splits prod.splits)

lemma raise_snd: "snd (raise e) = Inl e"
  by (simp add: raise_def)

text \<open>
  C4. Whenever the conversion tool writes anything to its error stream, the image stage
  raises \<open>CalledProcessError\<close> right after the conversion call, also when the exit code
  is zero: the PDF is not opened and no page is rasterized. The stage returns image paths
  only if the tool ran with exit code zero and an empty error stream.
\<close>

theorem conversion_stderr_is_failure:
  "(subprocess_run w (soffice_args soffice (pdf_tmp_dir w) ppt) enc = Inr output
      \<and> stderr output \<noteq> [] \<longrightarrow>
      convert_ppt_to_image w ppt dir dpi tmpl soffice enc pages
        = ([SubprocessRun (soffice_args soffice (pdf_tmp_dir w) ppt) enc],
           Inl (CalledProcessError (returncode output)
                  (soffice_args soffice (pdf_tmp_dir w) ppt) (stdout output) (stderr output))))
   \<and> (snd (convert_ppt_to_image w ppt dir dpi tmpl soffice enc pages) = Inr paths \<longrightarrow>
        (\<exists>out. subprocess_run w (soffice_args soffice (pdf_tmp_dir w) ppt) enc = Inr out
           \<and> returncode out = 0 \<and> stderr out = []))"
proof (intro conjI impI)
  let ?args = "soffice_args soffice (pdf_tmp_dir w) ppt"
  assume a: "subprocess_run w ?args enc = Inr output \<and> stderr output \<noteq> []"
  show "convert_ppt_to_image w ppt dir dpi tmpl soffice enc pages
        = ([SubprocessRun ?args enc],
           Inl (CalledProcessError (returncode output) ?args (stdout output) (stderr output)))"
  proof (cases "returncode output = 0")
    case True
    with a have "subprocess_run_checked w ?args enc = ([SubprocessRun ?args enc], Inr output)"
      by (simp add: subprocess_run_checked_ok)
    with a show ?thesis
      by (simp add: convert_ppt_to_image_def Let_def bind_Inr raise_def)
  next
    case False
    with a have "subprocess_run_checked w ?args enc
        = ([SubprocessRun ?args enc],
           Inl (CalledProcessError (returncode output) ?args (stdout output) (stderr output)))"
      by (simp add: prod_eq_iff subprocess_run_checked_fst subprocess_run_checked_snd)
    then show ?thesis
      by (simp add: convert_ppt_to_image_def Let_def bind_Inl)
  qed
next
  let ?args = "soffice_args soffice (pdf_tmp_dir w) ppt"
  assume "snd (convert_ppt_to_image w ppt dir dpi tmpl soffice enc pages) = Inr paths"
  then obtain out where run: "snd (subprocess_run_checked w ?args enc) = Inr out"
    and rest: "snd (if length (stderr out) > 0
                    then raise (CalledProcessError (returncode out) ?args (stdout out) (stderr out))
                    else (let pdf_file_path = joinpath (pdf_tmp_dir w) (stem w ppt @ ''.pdf'')
            in bind (emit (PdfOpen pdf_file_path)) (\<lambda>_.
               bind (lift (pymupdf_open w pdf_file_path)) (\<lambda>pdf.
                 case image_tasks w (enumerate_py 1 pdf) pages dir tmpl dpi of
                   Inl e \<Rightarrow> raise (ExceptionGroup [e])
                 | Inr tasks \<Rightarrow>
                     bind (task_group tasks (raster_completion w) (raster_cancel_lag w))
                       (\<lambda>done. lift (task_results done)))))) = Inr paths"
    unfolding convert_ppt_to_image_def Let_def by (blast dest: bind_snd_Inr)
  from rest have "stderr out = []"
    by (cases "stderr out = []") (simp_all add: raise_snd)
  moreover from run have "subprocess_run w ?args enc = Inr out \<and> returncode out = 0"
    by (auto simp: subprocess_run_checked_snd split: sum.splits if_splits)
  ultimately show "\<exists>out. subprocess_run w ?args enc = Inr out \<and> returncode out = 0 \<and> stderr out = []"
    by blast
qed

theorem conversion_stderr_is_failure_witness:
  "convert_ppt_to_image warning_world ''deck.pptx'' ''images'' 75 page_template ''soffice''
       ''utf-8'' (Some [1])
     = ([SubprocessRun (soffice_args ''soffice'' ''/tmp/pdf'' ''deck.pptx'') ''utf-8''],
        Inl (CalledProcessError 0 (soffice_args ''soffice'' ''/tmp/pdf'' ''deck.pptx'') []
               ''warning''))
   \<and> snd (main_process warning_world ''deck.pptx'' ''out.mp4'' ''soffice'' ''ffmpeg'' 75 ''voice''
            ''utf-8'')
     = Inl (CalledProcessError 0 (soffice_args ''soffice'' ''/tmp/pdf'' ''deck.pptx'') []
              ''warning'')
   \<and> snd (convert_ppt_to_image (ok_world [noted ''one''] 1) ''deck.pptx'' ''images'' 75
            page_template ''soffice'' ''utf-8'' (Some [1]))
     = Inr [''images/page-1.png'']
   \<and> (\<exists>out. subprocess_run (ok_world [noted ''one''] 1)
               (soffice_args ''soffice'' (pdf_tmp_dir (ok_world [noted ''one''] 1)) ''deck.pptx'')
               ''utf-8'' = Inr out
         \<and> returncode out = 0 \<and> stderr out = [])"
proof -
  have fails: "subprocess_run warning_world
                 (soffice_args ''soffice'' (pdf_tmp_dir warning_world) ''deck.pptx'') ''utf-8''
               = Inr \<lparr> returncode = 0, stdout = [], stderr = ''warning'' \<rparr>
               \<and> stderr \<lparr> returncode = 0, stdout = [], stderr = ''warning'' \<rparr> \<noteq> []"
    by (simp add: warning_world_def)
  have tmp: "pdf_tmp_dir warning_world = ''/tmp/pdf''"
    by (simp add: warning_world_def ok_world_def)
  have a: "convert_ppt_to_image warning_world ''deck.pptx'' ''images'' 75 page_template ''soffice''
       ''utf-8'' (Some [1])
     = ([SubprocessRun (soffice_args ''soffice'' ''/tmp/pdf'' ''deck.pptx'') ''utf-8''],
        Inl (CalledProcessError 0 (soffice_args ''soffice'' ''/tmp/pdf'' ''deck.pptx'') []
               ''warning''))"
    using conversion_stderr_is_failure
            [of warning_world "''soffice''" "''deck.pptx''" "''utf-8''"
                "\<lparr> returncode = 0, stdout = [], stderr = ''warning'' \<rparr>"
                "''images''" 75 page_template "Some [1]" "[]"]
          fails
    by (simp add: tmp)
  have b: "snd (main_process warning_world ''deck.pptx'' ''out.mp4'' ''soffice'' ''ffmpeg'' 75 ''voice''
            ''utf-8'')
     = Inl (CalledProcessError 0 (soffice_args ''soffice'' ''/tmp/pdf'' ''deck.pptx'') []
              ''warning'')"
    by code_simp
  have c: "snd (convert_ppt_to_image (ok_world [noted ''one''] 1) ''deck.pptx'' ''images'' 75
            page_template ''soffice'' ''utf-8'' (Some [1]))
     = Inr [''images/page-1.png'']"
    by code_simp
  have d: "\<exists>out. subprocess_run (ok_world [noted ''one''] 1)
               (soffice_args ''soffice'' (pdf_tmp_dir (ok_world [noted ''one''] 1)) ''deck.pptx'')
               ''utf-8'' = Inr out
         \<and> returncode out = 0 \<and> stderr out = []"
    using conversion_stderr_is_failure
            [of "ok_world [noted ''one''] 1" "''soffice''" "''deck.pptx''" "''utf-8''" _
                "''images''" 75 page_template "Some [1]" "[''images/page-1.png'']"]
          c
    by blast
  from a b c d show ?thesis by blast
qed

section \<open>Per-page rasterization\<close>

lemma convert_page_to_image_eq:
  "convert_page_to_image w page out dpi
     = (case get_pixmap w page dpi of
          Inl e \<Rightarrow> ([ExecutorSubmit (GetPixmapJob page dpi), ExecutorDone (GetPixmapJob page dpi)],
                    Inl e)
        | Inr pix \<Rightarrow>
            ([ExecutorSubmit (GetPixmapJob page dpi), ExecutorDone (GetPixmapJob page dpi),
              ExecutorSubmit (SaveJob pix out)]
             @ (if save_runs_early w pix out then [ExecutorDone (SaveJob pix out)] else []),
             Inr out))"
  by (simp add: convert_page_to_image_def page_after_await_def run_in_executor_def
        executor_progress_def bind_emit bind_ret bind_Inr bind_Inl lift_def ret_def emit_def
      split: sum.splits)

lemma convert_page_to_image_task_before [simp]:
  "before_await (convert_page_to_image_task w page out dpi)
     = [ExecutorSubmit (GetPixmapJob page dpi)]"
  by (simp add: convert_page_to_image_task_def create_task_def run_in_executor_def bind_emit
        ret_def)

lemma convert_page_to_image_task_after:
  "after_await (convert_page_to_image_task w page out dpi)
     = (case get_pixmap w page dpi of
          Inl e \<Rightarrow> ([ExecutorDone (GetPixmapJob page dpi)], Inl e)
        | Inr pix \<Rightarrow>
            ([ExecutorDone (GetPixmapJob page dpi), ExecutorSubmit (SaveJob pix out)]
             @ (if save_runs_early w pix out then [ExecutorDone (SaveJob pix out)] else []),
             Inr out))"
  by (simp add: convert_page_to_image_task_def create_task_def page_after_await_def
        run_in_executor_def executor_progress_def bind_emit bind_ret bind_Inr bind_Inl lift_def
        ret_def emit_def split: sum.splits)

lemma convert_page_to_image_task_runs:
  "bind (before_await (convert_page_to_image_task w page out dpi), Inr ())
     (\<lambda>_. after_await (convert_page_to_image_task w page out dpi))
   = convert_page_to_image w page out dpi"
  by (simp add: convert_page_to_image_eq convert_page_to_image_task_after bind_Inr
      split: sum.splits)

lemma page_after_await_pix_save [simp]:
  "page_after_await (w\<lparr>pix_save := f\<rparr>) fut out = page_after_await w fut out"
  by (cases fut)
     (simp add: page_after_await_def run_in_executor_def bind_emit bind_Inr ret_def
        executor_progress_def cong: if_cong)

lemma convert_page_to_image_task_pix_save [simp]:
  "convert_page_to_image_task (w\<lparr>pix_save := f\<rparr>) = convert_page_to_image_task w"
  by (intro ext) (simp add: convert_page_to_image_task_def)

lemma convert_note_to_audio_task_pix_save [simp]:
  "convert_note_to_audio_task (w\<lparr>pix_save := f\<rparr>) = convert_note_to_audio_task w"
  by (intro ext) (simp add: convert_note_to_audio_task_def convert_note_to_audio_def
        cong: option.case_cong)

lemma submitted_save_pix_save [simp]:
  "submitted_save (w\<lparr>pix_save := f\<rparr>) ev = submitted_save w ev"
  by (cases "(w, ev)" rule: submitted_save.cases) simp_all

lemma late_saves_pix_save [simp]:
  "late_saves (w\<lparr>pix_save := f\<rparr>) waiting tr = late_saves w waiting tr"
  by (induction tr arbitrary: waiting) simp_all

lemma convert_page_to_image_pix_save [simp]:
  "convert_page_to_image (w\<lparr>pix_save := f\<rparr>) = convert_page_to_image w"
  by (intro ext) (simp add: convert_page_to_image_eq cong: sum.case_cong if_cong)

lemma image_tasks_pix_save [simp]:
  "image_tasks (w\<lparr>pix_save := f\<rparr>) ts pages dir tmpl dpi = image_tasks w ts pages dir tmpl dpi"
  by (induction ts) (auto split: sum.splits)

lemma subprocess_run_checked_pix_save [simp]:
  "subprocess_run_checked (w\<lparr>pix_save := f\<rparr>) = subprocess_run_checked w"
  by (intro ext) (simp add: subprocess_run_checked_def cong: sum.case_cong if_cong)

lemma convert_ppt_to_image_pix_save [simp]:
  "convert_ppt_to_image (w\<lparr>pix_save := f\<rparr>) = convert_ppt_to_image w"
  by (intro ext) (simp add: convert_ppt_to_image_def Let_def cong: sum.case_cong if_cong)

lemma convert_note_to_audio_pix_save [simp]:
  "convert_note_to_audio (w\<lparr>pix_save := f\<rparr>) = convert_note_to_audio w"
  by (intro ext) (simp add: convert_note_to_audio_def cong: option.case_cong)

lemma audio_tasks_pix_save [simp]:
  "audio_tasks (w\<lparr>pix_save := f\<rparr>) ts dir tmpl voice = audio_tasks w ts dir tmpl voice"
  by (induction ts) (auto split: sum.splits)

lemma convert_notes_to_audio_pix_save [simp]:
  "convert_notes_to_audio (w\<lparr>pix_save := f\<rparr>) = convert_notes_to_audio w"
  by (intro ext) (simp add: convert_notes_to_audio_def cong: sum.case_cong)

lemma convert_video_pix_save [simp]:
  "convert_video (w\<lparr>pix_save := f\<rparr>) = convert_video w"
  by (intro ext) (simp add: convert_video_def)

lemma convert_videos_loop_pix_save [simp]:
  "convert_videos_loop (w\<lparr>pix_save := f\<rparr>) ts dir tmpl ffmpeg enc
     = convert_videos_loop w ts dir tmpl ffmpeg enc"
  by (induction ts) (auto split: sum.splits)

lemma convert_videos_pix_save [simp]:
  "convert_videos (w\<lparr>pix_save := f\<rparr>) = convert_videos w"
  by (intro ext) (simp add: convert_videos_def)

lemma concat_videos_pix_save [simp]:
  "concat_videos (w\<lparr>pix_save := f\<rparr>) = concat_videos w"
  by (intro ext) (simp add: concat_videos_def manifest_def)

lemma get_notes_from_ppt_file_pix_save [simp]:
  "get_notes_from_ppt_file (w\<lparr>pix_save := f\<rparr>) = get_notes_from_ppt_file w"
  by (intro ext) (simp add: get_notes_from_ppt_file_def)

lemma main_process_coroutine_pix_save [simp]:
  "main_process_coroutine (w\<lparr>pix_save := f\<rparr>) = main_process_coroutine w"
  by (intro ext) (simp add: main_process_coroutine_def Let_def)

lemma main_process_pix_save:
  "main_process (w\<lparr>pix_save := f\<rparr>) = main_process w"
  by (intro ext) (simp add: main_process_def)

text \<open>
  C10. When the pixmap has been computed, per-page rasterization returns the output path
  with the save job submitted and not awaited: unless the worker thread happens to have
  run the job already, the save is not done when the function returns. The outcome of the
  save never reaches the caller: the function, the image stage and the whole run behave
  the same whatever the save does, also when it raises.
\<close>

theorem page_save_not_awaited:
  "(get_pixmap w page dpi = Inr pix \<longrightarrow>
      convert_page_to_image w page out dpi
        = ([ExecutorSubmit (GetPixmapJob page dpi), ExecutorDone (GetPixmapJob page dpi),
            ExecutorSubmit (SaveJob pix out)]
           @ (if save_runs_early w pix out then [ExecutorDone (SaveJob pix out)] else []),
           Inr out))
   \<and> convert_page_to_image (w\<lparr>pix_save := f\<rparr>) page out dpi
       = convert_page_to_image w page out dpi
   \<and> convert_ppt_to_image (w\<lparr>pix_save := f\<rparr>) ppt dir dpi tmpl soffice enc pages
       = convert_ppt_to_image w ppt dir dpi tmpl soffice enc pages
   \<and> main_process (w\<lparr>pix_save := f\<rparr>) ppt final soffice ffmpeg dpi voice enc
       = main_process w ppt final soffice ffmpeg dpi voice enc"
  by (simp add: convert_page_to_image_eq main_process_pix_save)

theorem page_save_not_awaited_witness:
  "pix_save failing_save_world (Pixmap (Page 0) 75) ''images/page-1.png''
     = Some (CollaboratorError ''disk full'')
   \<and> convert_page_to_image failing_save_world (Page 0) ''images/page-1.png'' 75
     = ([ExecutorSubmit (GetPixmapJob (Page 0) 75), ExecutorDone (GetPixmapJob (Page 0) 75),
         ExecutorSubmit (SaveJob (Pixmap (Page 0) 75) ''images/page-1.png'')],
        Inr ''images/page-1.png'')
   \<and> snd (convert_ppt_to_image failing_save_world ''deck.pptx'' ''images'' 75 page_template
            ''soffice'' ''utf-8'' (Some [1]))
     = Inr [''images/page-1.png'']"
proof -
  have g: "get_pixmap failing_save_world (Page 0) 75 = Inr (Pixmap (Page 0) 75)"
    by (simp add: failing_save_world_def ok_world_def)
  have e: "\<not> save_runs_early failing_save_world (Pixmap (Page 0) 75) ''images/page-1.png''"
    by (simp add: failing_save_world_def ok_world_def)
  have a: "convert_page_to_image failing_save_world (Page 0) ''images/page-1.png'' 75
     = ([ExecutorSubmit (GetPixmapJob (Page 0) 75), ExecutorDone (GetPixmapJob (Page 0) 75),
         ExecutorSubmit (SaveJob (Pixmap (Page 0) 75) ''images/page-1.png'')],
        Inr ''images/page-1.png'')"
    using page_save_not_awaited
            [of failing_save_world "Page 0" 75 "Pixmap (Page 0) 75" "''images/page-1.png''"]
          g e
    by simp
  have b: "snd (convert_ppt_to_image (ok_world [noted ''one''] 1) ''deck.pptx'' ''images'' 75
             page_template ''soffice'' ''utf-8'' (Some [1]))
     = Inr [''images/page-1.png'']"
    by code_simp
  have c: "snd (convert_ppt_to_image failing_save_world ''deck.pptx'' ''images'' 75 page_template
            ''soffice'' ''utf-8'' (Some [1]))
     = Inr [''images/page-1.png'']"
    using page_save_not_awaited
            [of "ok_world [noted ''one''] 1" _ 75 _ _
                "\<lambda>pix p. Some (CollaboratorError ''disk full'')"
                "''deck.pptx''" "''images''" page_template "''soffice''" "''utf-8''" "Some [1]"]
          b
    by (simp add: failing_save_world_def)
  have d: "pix_save failing_save_world (Pixmap (Page 0) 75) ''images/page-1.png''
     = Some (CollaboratorError ''disk full'')"
    by (simp add: failing_save_world_def)
  from a c d show ?thesis by blast
qed

section \<open>The image stage\<close>










section \<open>Decks without notes\<close>

lemma no_notes_selected:
  "\<forall>n\<in>set ns. n = None \<or> n = Some [] \<Longrightarrow> available_pages_and_notes ns = []"
proof -
  assume a: "\<forall>n\<in>set ns. n = None \<or> n = Some []"
  have "filter has_note (enumerate_py k ns) = []" for k
    using a by (induction ns arbitrary: k) auto
  then show ?thesis by (simp add: available_pages_and_notes_def map_filter_simps)
qed

lemma convert_notes_to_audio_Nil: "convert_notes_to_audio w [] dir tmpl voice = ([], Inr [])"
  by (simp add: convert_notes_to_audio_def task_group_def completion_order_def bind_ret bind_Inr
        lift_def ret_def)

lemma image_tasks_none_kept: "image_tasks w ts (Some []) dir tmpl dpi = Inr []"
  by (induction ts) (auto simp: skip_page_def)

lemma bind_fst:
  "fst (bind m f) = fst m @ (case snd m of Inl e \<Rightarrow> [] | Inr x \<Rightarrow> fst (f x))"
  by (cases m) (simp add: bind_def split: sum.splits prod.splits)

lemma bind_snd:
  "snd (bind m f) = (case snd m of Inl e \<Rightarrow> Inl e | Inr x \<Rightarrow> snd (f x))"
  by (cases m) (simp add: bind_def split: sum.splits prod.splits)

lemma convert_ppt_to_image_fst_Cons:
  "\<exists>rest. fst (convert_ppt_to_image w ppt dir dpi tmpl soffice enc pages)
            = SubprocessRun (soffice_args soffice (pdf_tmp_dir w) ppt) enc # rest"
  unfolding convert_ppt_to_image_def Let_def
  by (simp add: bind_fst subprocess_run_checked_fst)

lemma convert_ppt_to_image_none_kept:
  assumes "subprocess_run w (soffice_args soffice (pdf_tmp_dir w) ppt) enc = Inr output"
    and "returncode output = 0" and "stderr output = []"
    and "pymupdf_open w (joinpath (pdf_tmp_dir w) (stem w ppt @ ''.pdf'')) = Inr pdf"
  shows "convert_ppt_to_image w ppt dir dpi tmpl soffice enc (Some [])
           = ([SubprocessRun (soffice_args soffice (pdf_tmp_dir w) ppt) enc,
               PdfOpen (joinpath (pdf_tmp_dir w) (stem w ppt @ ''.pdf''))],
              Inr [])"
proof -
  have checked: "subprocess_run_checked w (soffice_args soffice (pdf_tmp_dir w) ppt) enc
                   = ([SubprocessRun (soffice_args soffice (pdf_tmp_dir w) ppt) enc], Inr output)"
    using assms by (simp add: subprocess_run_checked_ok)
  show ?thesis
    unfolding convert_ppt_to_image_def Let_def checked
    by (simp add: assms bind_Inr bind_emit lift_def image_tasks_none_kept task_group_def
          completion_order_def bind_ret ret_def)
qed

lemma convert_videos_Nil: "convert_videos w [] auds dir tmpl ffmpeg enc = ([], Inr [])"
  by (simp add: convert_videos_def ret_def)

lemma concat_videos_ok:
  assumes "subprocess_run w
             (ffmpeg_concat_args ffmpeg (joinpath (concat_tmp_dir w) ''concat.txt'') final) enc
           = Inr output"
    and "returncode output = 0"
  shows "concat_videos w vs final ffmpeg enc
           = ([WriteFile (joinpath (concat_tmp_dir w) ''concat.txt'') (manifest w vs),
               SubprocessRun
                 (ffmpeg_concat_args ffmpeg (joinpath (concat_tmp_dir w) ''concat.txt'') final) enc],
              Inr final)"
  using assms
  by (simp add: concat_videos_def Let_def bind_emit subprocess_run_checked_ok bind_Inr ret_def)

lemma convert_videos_no_audio: "convert_videos w imgs [] dir tmpl ffmpeg enc = ([], Inr [])"
  by (cases imgs) (simp_all add: convert_videos_def ret_def)

lemma main_process_no_notes:
  assumes "presentation w ppt = Inr slides"
    and "\<forall>s\<in>set slides. get_note_from_slide s = None"
  shows "main_process_coroutine w ppt final soffice ffmpeg dpi voice enc
           = bind (emit (Mkdir (joinpath (main_tmp_dir w) ''audios''))) (\<lambda>_.
             bind (emit (Mkdir (joinpath (main_tmp_dir w) ''images''))) (\<lambda>_.
             bind (convert_ppt_to_image w ppt (joinpath (main_tmp_dir w) ''images'') dpi
                     page_template soffice enc (Some [])) (\<lambda>image_file_paths.
             bind (emit (Mkdir (joinpath (main_tmp_dir w) ''videos''))) (\<lambda>_.
             concat_videos w [] final ffmpeg enc))))"
proof -
  have "available_pages_and_notes (map get_note_from_slide slides) = []"
    using assms(2) by (intro no_notes_selected) simp
  then have sel: "available_notes (map get_note_from_slide slides) = []"
    "available_pages (map get_note_from_slide slides) = []"
    by (simp_all add: available_notes_def available_pages_def)
  show ?thesis
    by (simp add: main_process_coroutine_def Let_def get_notes_from_ppt_file_def assms(1) lift_def
          bind_Inr bind_ret sel convert_notes_to_audio_Nil convert_videos_no_audio ret_def
          prod_eq_iff bind_fst bind_snd cong: sum.case_cong)
qed

text \<open>
  C5 (as amended). For a deck in which no slide has a note, the pipeline does not fail
  fast: it makes no synthesis call and goes straight on to invoke the document-conversion
  tool. When the conversion succeeds, the PDF opens and the concatenation tool succeeds,
  the run rasterizes nothing, muxes nothing, concatenates an empty manifest and returns
  the output path.
\<close>

theorem no_notes_run_goes_on:
  assumes "presentation w ppt = Inr slides"
    and "\<forall>s\<in>set slides. get_note_from_slide s = None"
  shows "(\<exists>rest. fst (main_process w ppt final soffice ffmpeg dpi voice enc)
            = [Mkdir (joinpath (main_tmp_dir w) ''audios''),
               Mkdir (joinpath (main_tmp_dir w) ''images''),
               SubprocessRun (soffice_args soffice (pdf_tmp_dir w) ppt) enc] @ rest)
         \<and> (subprocess_run w (soffice_args soffice (pdf_tmp_dir w) ppt) enc = Inr conv_output
              \<and> returncode conv_output = 0 \<and> stderr conv_output = []
              \<and> pymupdf_open w (joinpath (pdf_tmp_dir w) (stem w ppt @ ''.pdf'')) = Inr pdf
              \<and> subprocess_run w
                   (ffmpeg_concat_args ffmpeg (joinpath (concat_tmp_dir w) ''concat.txt'') final)
                   enc = Inr cat_output
              \<and> returncode cat_output = 0
            \<longrightarrow> main_process w ppt final soffice ffmpeg dpi voice enc
                  = ([Mkdir (joinpath (main_tmp_dir w) ''audios''),
                      Mkdir (joinpath (main_tmp_dir w) ''images''),
                      SubprocessRun (soffice_args soffice (pdf_tmp_dir w) ppt) enc,
                      PdfOpen (joinpath (pdf_tmp_dir w) (stem w ppt @ ''.pdf'')),
                      Mkdir (joinpath (main_tmp_dir w) ''videos''),
                      WriteFile (joinpath (concat_tmp_dir w) ''concat.txt'') [],
                      SubprocessRun
                        (ffmpeg_concat_args ffmpeg (joinpath (concat_tmp_dir w) ''concat.txt'')
                           final) enc],
                     Inr final))"
proof (intro conjI impI)
  obtain rest where "fst (convert_ppt_to_image w ppt (joinpath (main_tmp_dir w) ''images'') dpi
                     page_template soffice enc (Some []))
            = SubprocessRun (soffice_args soffice (pdf_tmp_dir w) ppt) enc # rest"
    using convert_ppt_to_image_fst_Cons by blast
  then have "\<exists>rest. fst (main_process_coroutine w ppt final soffice ffmpeg dpi voice enc)
            = [Mkdir (joinpath (main_tmp_dir w) ''audios''),
               Mkdir (joinpath (main_tmp_dir w) ''images''),
               SubprocessRun (soffice_args soffice (pdf_tmp_dir w) ppt) enc] @ rest"
    unfolding main_process_no_notes [OF assms]
    by (simp add: bind_emit bind_fst)
  then obtain rest where "fst (main_process_coroutine w ppt final soffice ffmpeg dpi voice enc)
            = [Mkdir (joinpath (main_tmp_dir w) ''audios''),
               Mkdir (joinpath (main_tmp_dir w) ''images''),
               SubprocessRun (soffice_args soffice (pdf_tmp_dir w) ppt) enc] @ rest"
    by blast
  then have "fst (main_process w ppt final soffice ffmpeg dpi voice enc)
            = [Mkdir (joinpath (main_tmp_dir w) ''audios''),
               Mkdir (joinpath (main_tmp_dir w) ''images''),
               SubprocessRun (soffice_args soffice (pdf_tmp_dir w) ppt) enc]
              @ late_saves w [] rest"
    by (simp add: main_process_def case_prod_unfold)
  then show "\<exists>rest. fst (main_process w ppt final soffice ffmpeg dpi voice enc)
            = [Mkdir (joinpath (main_tmp_dir w) ''audios''),
               Mkdir (joinpath (main_tmp_dir w) ''images''),
               SubprocessRun (soffice_args soffice (pdf_tmp_dir w) ppt) enc] @ rest"
    by blast
next
  assume a: "subprocess_run w (soffice_args soffice (pdf_tmp_dir w) ppt) enc = Inr conv_output
              \<and> returncode conv_output = 0 \<and> stderr conv_output = []
              \<and> pymupdf_open w (joinpath (pdf_tmp_dir w) (stem w ppt @ ''.pdf'')) = Inr pdf
              \<and> subprocess_run w
                   (ffmpeg_concat_args ffmpeg (joinpath (concat_tmp_dir w) ''concat.txt'') final)
                   enc = Inr cat_output
              \<and> returncode cat_output = 0"
  have img: "convert_ppt_to_image w ppt (joinpath (main_tmp_dir w) ''images'') dpi
               page_template soffice enc (Some [])
           = ([SubprocessRun (soffice_args soffice (pdf_tmp_dir w) ppt) enc,
               PdfOpen (joinpath (pdf_tmp_dir w) (stem w ppt @ ''.pdf''))],
              Inr [])"
  proof -
    from a have r: "subprocess_run w (soffice_args soffice (pdf_tmp_dir w) ppt) enc = Inr conv_output"
      "returncode conv_output = 0" "stderr conv_output = []"
      "pymupdf_open w (joinpath (pdf_tmp_dir w) (stem w ppt @ ''.pdf'')) = Inr pdf"
      by simp_all
    show ?thesis by (rule convert_ppt_to_image_none_kept [OF r])
  qed
  have cat: "concat_videos w [] final ffmpeg enc
           = ([WriteFile (joinpath (concat_tmp_dir w) ''concat.txt'') (manifest w []),
               SubprocessRun
                 (ffmpeg_concat_args ffmpeg (joinpath (concat_tmp_dir w) ''concat.txt'') final) enc],
              Inr final)"
  proof -
    from a have r: "subprocess_run w
                   (ffmpeg_concat_args ffmpeg (joinpath (concat_tmp_dir w) ''concat.txt'') final)
                   enc = Inr cat_output" "returncode cat_output = 0"
      by simp_all
    show ?thesis by (rule concat_videos_ok [OF r])
  qed
  show "main_process w ppt final soffice ffmpeg dpi voice enc
                  = ([Mkdir (joinpath (main_tmp_dir w) ''audios''),
                      Mkdir (joinpath (main_tmp_dir w) ''images''),
                      SubprocessRun (soffice_args soffice (pdf_tmp_dir w) ppt) enc,
                      PdfOpen (joinpath (pdf_tmp_dir w) (stem w ppt @ ''.pdf'')),
                      Mkdir (joinpath (main_tmp_dir w) ''videos''),
                      WriteFile (joinpath (concat_tmp_dir w) ''concat.txt'') [],
                      SubprocessRun
                        (ffmpeg_concat_args ffmpeg (joinpath (concat_tmp_dir w) ''concat.txt'')
                           final) enc],
                     Inr final)"
    unfolding main_process_def main_process_no_notes [OF assms] img cat
    by (simp add: bind_emit bind_Inr manifest_def)
qed

theorem no_notes_run_goes_on_witness:
  "main_process (ok_world [bare, noted []] 2) ''deck.pptx'' ''out.mp4'' ''soffice'' ''ffmpeg'' 75
       ''voice'' ''utf-8''
     = ([Mkdir ''/tmp/main/audios'',
         Mkdir ''/tmp/main/images'',
         SubprocessRun (soffice_args ''soffice'' ''/tmp/pdf'' ''deck.pptx'') ''utf-8'',
         PdfOpen ''/tmp/pdf/deck.pdf'',
         Mkdir ''/tmp/main/videos'',
         WriteFile ''/tmp/concat/concat.txt'' [],
         SubprocessRun (ffmpeg_concat_args ''ffmpeg'' ''/tmp/concat/concat.txt'' ''out.mp4'')
           ''utf-8''],
        Inr ''out.mp4'')"
proof -
  let ?w = "ok_world [bare, noted []] 2"
  have p: "presentation ?w ''deck.pptx'' = Inr [bare, noted []]"
    by (simp add: ok_world_def)
  have n: "\<forall>s\<in>set [bare, noted []]. get_note_from_slide s = None"
    by (simp add: get_note_from_slide_def has_notes_slide_def bare_def noted_def)
  have tools: "subprocess_run ?w (soffice_args ''soffice'' (pdf_tmp_dir ?w) ''deck.pptx'') ''utf-8''
                 = Inr \<lparr> returncode = 0, stdout = [], stderr = [] \<rparr>
               \<and> returncode \<lparr> returncode = 0, stdout = [], stderr = [] \<rparr> = 0
               \<and> stderr \<lparr> returncode = 0, stdout = [], stderr = [] \<rparr> = []
               \<and> pymupdf_open ?w (joinpath (pdf_tmp_dir ?w) (stem ?w ''deck.pptx'' @ ''.pdf''))
                 = Inr (map Page [0..<2])
               \<and> subprocess_run ?w
                   (ffmpeg_concat_args ''ffmpeg'' (joinpath (concat_tmp_dir ?w) ''concat.txt'')
                      ''out.mp4'') ''utf-8''
                 = Inr \<lparr> returncode = 0, stdout = [], stderr = [] \<rparr>
               \<and> returncode \<lparr> returncode = 0, stdout = [], stderr = [] \<rparr> = 0"
    by (simp add: ok_world_def)
  show ?thesis
    using no_notes_run_goes_on
            [OF p n, where soffice = "''soffice''" and enc = "''utf-8''"
               and conv_output = "\<lparr> returncode = 0, stdout = [], stderr = [] \<rparr>"
               and pdf = "map Page [0..<2]" and ffmpeg = "''ffmpeg''" and final = "''out.mp4''"
               and cat_output = "\<lparr> returncode = 0, stdout = [], stderr = [] \<rparr>"
               and dpi = 75 and voice = "''voice''"]
          tools
    by (simp add: ok_world_def joinpath_def)
qed

text \<open>
  A deck of three slides without any note, with tools that succeed and with a
  concatenation tool that rejects the empty manifest: in both runs the conversion tool and
  the concatenation tool are invoked; the first run returns the conv_output path, the second
  raises the concatenation tool's error.
\<close>

theorem no_notes_counterexample:
  "available_pages_and_notes
     (map get_note_from_slide [bare, Slide (Some (NotesSlide None)), noted []]) = []
   \<and> main_process (ok_world [bare, Slide (Some (NotesSlide None)), noted []] 3)
       ''deck.pptx'' ''out.mp4'' ''soffice'' ''ffmpeg'' 75 ''voice'' ''utf-8''
     = ([Mkdir ''/tmp/main/audios'',
         Mkdir ''/tmp/main/images'',
         SubprocessRun (soffice_args ''soffice'' ''/tmp/pdf'' ''deck.pptx'') ''utf-8'',
         PdfOpen ''/tmp/pdf/deck.pdf'',
         Mkdir ''/tmp/main/videos'',
         WriteFile ''/tmp/concat/concat.txt'' [],
         SubprocessRun (ffmpeg_concat_args ''ffmpeg'' ''/tmp/concat/concat.txt'' ''out.mp4'')
           ''utf-8''],
        Inr ''out.mp4'')
   \<and> main_process (concat_fails_world [bare, Slide (Some (NotesSlide None)), noted []] 3)
       ''deck.pptx'' ''out.mp4'' ''soffice'' ''ffmpeg'' 75 ''voice'' ''utf-8''
     = ([Mkdir ''/tmp/main/audios'',
         Mkdir ''/tmp/main/images'',
         SubprocessRun (soffice_args ''soffice'' ''/tmp/pdf'' ''deck.pptx'') ''utf-8'',
         PdfOpen ''/tmp/pdf/deck.pdf'',
         Mkdir ''/tmp/main/videos'',
         WriteFile ''/tmp/concat/concat.txt'' [],
         SubprocessRun (ffmpeg_concat_args ''ffmpeg'' ''/tmp/concat/concat.txt'' ''out.mp4'')
           ''utf-8''],
        Inl (CalledProcessError 1
               (ffmpeg_concat_args ''ffmpeg'' ''/tmp/concat/concat.txt'' ''out.mp4'') []
               ''Invalid data found''))"
  by code_simp

section \<open>The order of the branches\<close>


























end
